theory Spec2Isabelle
  imports Complex_Main "HOL-Library.Log_Nat"
begin

section \<open>JavaScript numbers\<close>

text \<open>
  Every number of the scoring engine is an IEEE 754 binary64 value. A finite double is
  a rational, so \<open>number\<close> is \<open>rat\<close>, and each arithmetic operation is the exact
  operation followed by rounding to the nearest double, ties to even (\<open>rnd\<close>).
  \<open>expo x\<close> is the binary exponent of \<open>x\<close> and \<open>quantum x\<close> the spacing of the
  doubles around it (53 significant bits). The exponent range is left unbounded: the
  counts the engine reads are PostgreSQL row counts, far from overflow and underflow.
  Divisions are guarded in the source, so NaN and the infinities never arise.
\<close>

type_synonym number = rat

definition round_half_even :: "rat \<Rightarrow> int" where
  "round_half_even x =
     (let f = \<lfloor>x\<rfloor>; d = x - of_int f
      in if d < 1/2 then f else if 1/2 < d then f + 1 else if even f then f else f + 1)"

definition expo :: "rat \<Rightarrow> int" where
  "expo x =
     (let a = \<bar>x\<bar>
      in if 1 \<le> a then bitlen \<lfloor>a\<rfloor> - 1 else - bitlen (\<lceil>1 / a\<rceil> - 1))"

definition quantum :: "rat \<Rightarrow> rat" where
  "quantum x = 2 powi (expo x - 52)"

definition rnd :: "rat \<Rightarrow> number" where
  "rnd x = (if x = 0 then 0 else of_int (round_half_even (x / quantum x)) * quantum x)"

text \<open>A decimal literal of the source denotes the nearest double.\<close>

definition js_lit :: "rat \<Rightarrow> number" where
  "js_lit d = rnd d"

definition js_add :: "number \<Rightarrow> number \<Rightarrow> number" where
  "js_add a b = rnd (a + b)"

definition js_sub :: "number \<Rightarrow> number \<Rightarrow> number" where
  "js_sub a b = rnd (a - b)"

definition js_mul :: "number \<Rightarrow> number \<Rightarrow> number" where
  "js_mul a b = rnd (a * b)"

text \<open>Only called with a non-zero divisor (the source tests the divisor first).\<close>

definition js_div :: "number \<Rightarrow> number \<Rightarrow> number" where
  "js_div a b = rnd (a / b)"

text \<open>\<open>Math.round\<close>: the nearest integer, a tie going up. It is exact on doubles.\<close>

definition Math_round :: "number \<Rightarrow> number" where
  "Math_round x = of_int \<lfloor>x + 1/2\<rfloor>"

definition Math_min :: "number \<Rightarrow> number \<Rightarrow> number" where
  "Math_min a b = min a b"

definition Math_max :: "number \<Rightarrow> number \<Rightarrow> number" where
  "Math_max a b = max a b"

text \<open>
  \<open>parseInt(result.count, 10)\<close> of a row count and \<open>.length\<close> of an array: the
  double nearest to the count (the count itself below \<open>2^53\<close>).
\<close>

definition parseInt_count :: "nat \<Rightarrow> number" where
  "parseInt_count n = rnd (of_nat n)"

definition array_length :: "'a list \<Rightarrow> number" where
  "array_length xs = rnd (of_nat (length xs))"

section \<open>The normalized data store\<close>

text \<open>
  The rows the scoring engine reads, with the columns its queries mention. A NULL of a
  text column is modelled by a string different from every value the queries compare
  with. \<open>created_date\<close> carries the instant the range queries compare and the local
  weekday and hour that \<open>getDay()\<close> and \<open>getHours()\<close> return for it.
\<close>

record device =
  device_client_id :: int
  device_name :: string
  managed :: bool
  health_status :: string

record control =
  control_client_id :: int
  control_type :: string
  control_status :: string

record user =
  user_client_id :: int
  mfa_enabled :: bool
  user_risk_level :: string

record jsdate =
  getTime :: int
  getDay :: nat
  getHours :: nat

record ticket =
  ticket_id :: int
  ticket_client_id :: int
  ticket_external_id :: "string option"
  category :: "string option"
  sla_met :: bool
  reopen_count :: int
  created_date :: "jsdate option"

record risk =
  risk_client_id :: int
  risk_type :: string
  risk_status :: string

record db =
  devices :: "device list"
  controls :: "control list"
  users :: "user list"
  tickets :: "ticket list"
  risks :: "risk list"

subsection \<open>models/device.js\<close>

definition device_findByClientId :: "db \<Rightarrow> int \<Rightarrow> device list" where
  "device_findByClientId d clientId = filter (\<lambda>r. device_client_id r = clientId) (devices d)"

definition device_findByHealthStatus :: "db \<Rightarrow> int \<Rightarrow> string \<Rightarrow> device list" where
  "device_findByHealthStatus d clientId healthStatus =
     filter (\<lambda>r. device_client_id r = clientId \<and> health_status r = healthStatus) (devices d)"

definition device_countByClientId :: "db \<Rightarrow> int \<Rightarrow> number" where
  "device_countByClientId d clientId =
     parseInt_count (length (filter (\<lambda>r. device_client_id r = clientId) (devices d)))"

definition device_countManagedByClientId :: "db \<Rightarrow> int \<Rightarrow> number" where
  "device_countManagedByClientId d clientId =
     parseInt_count (length (filter (\<lambda>r. device_client_id r = clientId \<and> managed r) (devices d)))"

subsection \<open>models/control.js\<close>

definition control_countByStatus :: "db \<Rightarrow> int \<Rightarrow> string \<Rightarrow> number" where
  "control_countByStatus d clientId status =
     parseInt_count
       (length (filter (\<lambda>r. control_client_id r = clientId \<and> control_status r = status) (controls d)))"

definition control_getPassRate :: "db \<Rightarrow> int \<Rightarrow> string option \<Rightarrow> number" where
  "control_getPassRate d clientId controlType =
     (let query = filter (\<lambda>r. control_client_id r = clientId \<and>
                    (case controlType of None \<Rightarrow> True | Some t \<Rightarrow> if t = [] then True else control_type r = t))
                    (controls d);
          totalCount = parseInt_count (length query);
          passedCount = parseInt_count (length (filter (\<lambda>r. control_status r = ''pass'') query))
      in if totalCount = 0 then 0 else js_mul (js_div passedCount totalCount) 100)"

subsection \<open>models/user.js\<close>

definition user_countByClientId :: "db \<Rightarrow> int \<Rightarrow> number" where
  "user_countByClientId d clientId =
     parseInt_count (length (filter (\<lambda>r. user_client_id r = clientId) (users d)))"

definition user_countMFAEnabled :: "db \<Rightarrow> int \<Rightarrow> number" where
  "user_countMFAEnabled d clientId =
     parseInt_count (length (filter (\<lambda>r. user_client_id r = clientId \<and> mfa_enabled r) (users d)))"

definition user_countByRiskLevel :: "db \<Rightarrow> int \<Rightarrow> string \<Rightarrow> number" where
  "user_countByRiskLevel d clientId riskLevel =
     parseInt_count
       (length (filter (\<lambda>r. user_client_id r = clientId \<and> user_risk_level r = riskLevel) (users d)))"

subsection \<open>models/ticket.js\<close>

text \<open>
  \<open>whereBetween\<close> is inclusive and never matches a NULL date. The \<open>orderBy\<close> of
  \<open>findByDateRange\<close> is not modelled: no score depends on the order of the rows.
\<close>

definition in_range :: "ticket \<Rightarrow> int \<Rightarrow> int \<Rightarrow> bool" where
  "in_range t startDate endDate =
     (case created_date t of None \<Rightarrow> False
      | Some c \<Rightarrow> startDate \<le> getTime c \<and> getTime c \<le> endDate)"

definition ticket_findByDateRange :: "db \<Rightarrow> int \<Rightarrow> int \<Rightarrow> int \<Rightarrow> ticket list" where
  "ticket_findByDateRange d clientId startDate endDate =
     filter (\<lambda>t. ticket_client_id t = clientId \<and> in_range t startDate endDate) (tickets d)"

definition ticket_countSLAMet :: "db \<Rightarrow> int \<Rightarrow> int \<Rightarrow> int \<Rightarrow> number" where
  "ticket_countSLAMet d clientId startDate endDate =
     parseInt_count
       (length (filter (\<lambda>t. ticket_client_id t = clientId \<and> sla_met t \<and> in_range t startDate endDate)
          (tickets d)))"

definition ticket_countReopened :: "db \<Rightarrow> int \<Rightarrow> int \<Rightarrow> int \<Rightarrow> number" where
  "ticket_countReopened d clientId startDate endDate =
     parseInt_count
       (length (filter (\<lambda>t. ticket_client_id t = clientId \<and> 0 < reopen_count t \<and> in_range t startDate endDate)
          (tickets d)))"

subsection \<open>models/risk.js\<close>

definition risk_findByType :: "db \<Rightarrow> int \<Rightarrow> string \<Rightarrow> risk list" where
  "risk_findByType d clientId riskType =
     filter (\<lambda>r. risk_client_id r = clientId \<and> risk_type r = riskType) (risks d)"

section \<open>Score results\<close>

text \<open>
  A component returns its score, for the Risk score a risk level, and its evidence. The
  evidence of a branch without data is a fixed description; the evidence of a computed
  branch is listed with its numeric fields (its description is a template over the same
  numbers and is not modelled). A breakdown entry is the component with its name and
  its weight label. \<open>computed_at\<close> is the clock and is left out.
\<close>

datatype evidence = Description string | Measured "(string \<times> number) list"

record component =
  score :: number
  risk_level :: "string option"
  evidence :: evidence

record score_result =
  res_score :: "number option"
  error :: "string option"
  breakdown :: "(string \<times> component \<times> string) list"

text \<open>The \<open>reduce\<close> of the three calculators over the weighted components.\<close>

definition weighted_total :: "(component \<times> number) list \<Rightarrow> number" where
  "weighted_total components =
     foldl (\<lambda>sum (c, weight). js_add sum (js_mul (score c) weight)) 0 components"

section \<open>engine/standards-score.js\<close>

definition calculateDeviceCoverage :: "int \<Rightarrow> number \<Rightarrow> number \<Rightarrow> component" where
  "calculateDeviceCoverage clientId totalDevices managedDevices =
     (let percentage = (if 0 < totalDevices then js_mul (js_div managedDevices totalDevices) 100 else 0)
      in \<lparr>score = Math_min percentage 100, risk_level = None,
          evidence = Measured [(''total_devices'', totalDevices), (''managed_devices'', managedDevices),
                               (''coverage_percentage'', Math_round percentage)]\<rparr>)"

definition calculateImmyCompliance :: "db \<Rightarrow> int \<Rightarrow> component" where
  "calculateImmyCompliance d clientId =
     (let totalControls = js_add (js_add (control_countByStatus d clientId ''pass'')
                                         (control_countByStatus d clientId ''fail''))
                                 (control_countByStatus d clientId ''unknown'')
      in if totalControls = 0
         then \<lparr>score = 0, risk_level = None,
               evidence = Description ''No Immy.Bot compliance data available''\<rparr>
         else let passedControls = control_countByStatus d clientId ''pass'';
                  percentage = js_mul (js_div passedControls totalControls) 100
              in \<lparr>score = Math_round percentage, risk_level = None,
                  evidence = Measured [(''total_controls'', totalControls),
                                       (''passed_controls'', passedControls),
                                       (''compliance_percentage'', Math_round percentage)]\<rparr>)"

definition calculatePatchCompliance :: "db \<Rightarrow> int \<Rightarrow> component" where
  "calculatePatchCompliance d clientId =
     (let totalDevices = device_countByClientId d clientId;
          healthyDevices = array_length (device_findByHealthStatus d clientId ''healthy'')
      in if totalDevices = 0
         then \<lparr>score = 0, risk_level = None,
               evidence = Description ''No device data available for patch compliance''\<rparr>
         else let percentage = js_mul (js_div healthyDevices totalDevices) 100
              in \<lparr>score = Math_round percentage, risk_level = None,
                  evidence = Measured [(''total_devices'', totalDevices),
                                       (''healthy_devices'', healthyDevices),
                                       (''patch_percentage'', Math_round percentage)]\<rparr>)"

definition calculateEDRHealth :: "db \<Rightarrow> int \<Rightarrow> component" where
  "calculateEDRHealth d clientId =
     (let totalDevices = device_countByClientId d clientId;
          managedDevices = device_countManagedByClientId d clientId
      in if totalDevices = 0
         then \<lparr>score = 0, risk_level = None,
               evidence = Description ''No device data available for EDR health''\<rparr>
         else let percentage = js_mul (js_div managedDevices totalDevices) 100
              in \<lparr>score = Math_round percentage, risk_level = None,
                  evidence = Measured [(''total_devices'', totalDevices),
                                       (''devices_with_edr'', managedDevices),
                                       (''edr_coverage'', Math_round percentage)]\<rparr>)"

definition calculateM365SecureScore :: "db \<Rightarrow> int \<Rightarrow> component" where
  "calculateM365SecureScore d clientId =
     (let passRate = control_getPassRate d clientId (Some ''m365_secure_score'')
      in if passRate = 0
         then \<lparr>score = 0, risk_level = None,
               evidence = Description ''No Microsoft 365 Secure Score data available''\<rparr>
         else \<lparr>score = Math_round passRate, risk_level = None,
               evidence = Measured [(''secure_score_percentage'', Math_round passRate)]\<rparr>)"

definition calculateStandardsScore :: "db \<Rightarrow> int \<Rightarrow> score_result" where
  "calculateStandardsScore d clientId =
     (let totalDevices = device_countByClientId d clientId;
          managedDevices = device_countManagedByClientId d clientId
      in if totalDevices = 0
         then \<lparr>res_score = None, error = Some ''Insufficient data: no devices found'', breakdown = []\<rparr>
         else let deviceCoverage = calculateDeviceCoverage clientId totalDevices managedDevices;
                  immyCompliance = calculateImmyCompliance d clientId;
                  patchCompliance = calculatePatchCompliance d clientId;
                  edrHealth = calculateEDRHealth d clientId;
                  m365SecureScore = calculateM365SecureScore d clientId;
                  totalScore = weighted_total
                    [(deviceCoverage, js_lit (20/100)), (immyCompliance, js_lit (30/100)),
                     (patchCompliance, js_lit (20/100)), (edrHealth, js_lit (15/100)),
                     (m365SecureScore, js_lit (15/100))]
              in \<lparr>res_score = Some (Math_round totalScore), error = None,
                  breakdown = [(''device_coverage'', deviceCoverage, ''20%''),
                               (''immy_compliance'', immyCompliance, ''30%''),
                               (''patch_compliance'', patchCompliance, ''20%''),
                               (''edr_health'', edrHealth, ''15%''),
                               (''m365_secure_score'', m365SecureScore, ''15%'')]\<rparr>)"

section \<open>engine/risk-score.js\<close>

text \<open>The label \<open>riskScore < 25 ? 'Low' : riskScore < 50 ? 'Medium' : 'High'\<close>.\<close>

definition riskLevel :: "number \<Rightarrow> string" where
  "riskLevel riskScore = (if riskScore < 25 then ''Low'' else if riskScore < 50 then ''Medium'' else ''High'')"

definition calculateIdentityRisk :: "db \<Rightarrow> int \<Rightarrow> component" where
  "calculateIdentityRisk d clientId =
     (let totalUsers = user_countByClientId d clientId
      in if totalUsers = 0
         then \<lparr>score = 50, risk_level = Some ''Medium'',
               evidence = Description ''No user data available for identity risk assessment''\<rparr>
         else let mfaEnabled = user_countMFAEnabled d clientId;
                  highRiskUsers = user_countByRiskLevel d clientId ''high'';
                  mediumRiskUsers = user_countByRiskLevel d clientId ''medium'';
                  mfaCoverage = js_mul (js_div mfaEnabled totalUsers) 100;
                  riskScore0 = js_add 0 (js_mul (js_sub 100 mfaCoverage) (js_lit (6/10)));
                  highRiskPercentage = js_mul (js_div highRiskUsers totalUsers) 100;
                  riskScore1 = js_add riskScore0 (js_mul highRiskPercentage (js_lit (3/10)));
                  mediumRiskPercentage = js_mul (js_div mediumRiskUsers totalUsers) 100;
                  riskScore = js_add riskScore1 (js_mul mediumRiskPercentage (js_lit (1/10)))
              in \<lparr>score = Math_round riskScore, risk_level = Some (riskLevel riskScore),
                  evidence = Measured [(''total_users'', totalUsers), (''mfa_enabled'', mfaEnabled),
                                       (''mfa_coverage'', Math_round mfaCoverage),
                                       (''high_risk_users'', highRiskUsers),
                                       (''medium_risk_users'', mediumRiskUsers)]\<rparr>)"

definition calculateEmailRisk :: "db \<Rightarrow> int \<Rightarrow> component" where
  "calculateEmailRisk d clientId =
     (let emailRisks = risk_findByType d clientId ''email'';
          openEmailRisks = filter (\<lambda>r. risk_status r = ''open'') emailRisks;
          riskScore = (if array_length openEmailRisks = 0 then 10
                       else if array_length openEmailRisks \<le> 3 then 30
                       else if array_length openEmailRisks \<le> 10 then 60
                       else 90)
      in \<lparr>score = riskScore, risk_level = Some (riskLevel riskScore),
          evidence = Measured [(''total_email_alerts'', array_length emailRisks),
                               (''open_email_alerts'', array_length openEmailRisks)]\<rparr>)"

definition calculateEndpointRisk :: "db \<Rightarrow> int \<Rightarrow> component" where
  "calculateEndpointRisk d clientId =
     (let totalDevices = device_countByClientId d clientId
      in if totalDevices = 0
         then \<lparr>score = 50, risk_level = Some ''Medium'',
               evidence = Description ''No device data available for endpoint risk assessment''\<rparr>
         else let managedDevices = device_countManagedByClientId d clientId;
                  criticalDevices = array_length (device_findByHealthStatus d clientId ''critical'');
                  endpointRisks = risk_findByType d clientId ''endpoint'';
                  openEndpointRisks = filter (\<lambda>r. risk_status r = ''open'') endpointRisks;
                  unmanagedPercentage =
                    js_mul (js_div (js_sub totalDevices managedDevices) totalDevices) 100;
                  criticalPercentage = js_mul (js_div criticalDevices totalDevices) 100;
                  riskScore0 = js_add 0 (js_mul unmanagedPercentage (js_lit (4/10)));
                  riskScore1 = js_add riskScore0 (js_mul criticalPercentage (js_lit (3/10)));
                  riskScore = js_add riskScore1 (Math_min (js_mul (array_length openEndpointRisks) 5) 30)
              in \<lparr>score = Math_round riskScore, risk_level = Some (riskLevel riskScore),
                  evidence = Measured [(''total_devices'', totalDevices),
                                       (''unmanaged_devices'', js_sub totalDevices managedDevices),
                                       (''critical_health_devices'', criticalDevices),
                                       (''open_endpoint_risks'', array_length openEndpointRisks)]\<rparr>)"

definition calculateBusinessModifier :: "int \<Rightarrow> component" where
  "calculateBusinessModifier clientId =
     \<lparr>score = 40, risk_level = Some ''Medium'',
      evidence = Description ''Standard business risk profile''\<rparr>"

definition calculateRiskScore :: "db \<Rightarrow> int \<Rightarrow> score_result" where
  "calculateRiskScore d clientId =
     (let identityRisk = calculateIdentityRisk d clientId;
          emailRisk = calculateEmailRisk d clientId;
          endpointRisk = calculateEndpointRisk d clientId;
          businessModifier = calculateBusinessModifier clientId;
          totalScore = weighted_total
            [(identityRisk, js_lit (30/100)), (emailRisk, js_lit (25/100)),
             (endpointRisk, js_lit (25/100)), (businessModifier, js_lit (20/100))]
      in \<lparr>res_score = Some (Math_round totalScore), error = None,
          breakdown = [(''identity_risk'', identityRisk, ''30%''),
                       (''email_risk'', emailRisk, ''25%''),
                       (''endpoint_risk'', endpointRisk, ''25%''),
                       (''business_modifier'', businessModifier, ''20%'')]\<rparr>)"

section \<open>engine/experience-score.js\<close>

text \<open>
  The quarter bounds that \<open>startOfQuarter\<close>, \<open>endOfQuarter\<close> and \<open>subMonths\<close> of
  date-fns compute from the clock are inputs.
\<close>

record quarters =
  currentQuarterStart :: int
  currentQuarterEnd :: int
  previousQuarterStart :: int
  previousQuarterEnd :: int

text \<open>The percent change of tickets per user, \<open>0\<close> when the previous quarter has no ticket.\<close>

definition trendPercentage :: "db \<Rightarrow> quarters \<Rightarrow> int \<Rightarrow> number" where
  "trendPercentage d q clientId =
     (let currentTickets = ticket_findByDateRange d clientId (currentQuarterStart q) (currentQuarterEnd q);
          previousTickets = ticket_findByDateRange d clientId (previousQuarterStart q) (previousQuarterEnd q);
          userCount = user_countByClientId d clientId;
          currentTicketsPerUser = js_div (array_length currentTickets) userCount;
          previousTicketsPerUser = js_div (array_length previousTickets) userCount
      in if 0 < previousTicketsPerUser
         then js_mul (js_div (js_sub currentTicketsPerUser previousTicketsPerUser) previousTicketsPerUser) 100
         else 0)"

text \<open>
  The chain of comparisons that turns the trend into a score. (Of the evidence of
  \<open>calculateTicketsPerUserTrend\<close> the two \<open>toFixed\<close> strings are left out.)
\<close>

definition trendScore :: "number \<Rightarrow> number" where
  "trendScore t =
     (if t < - 20 then 90
      else if t < - 10 then 75
      else if t < 0 then 60
      else if t = 0 then 50
      else if t < 10 then 40
      else if t < 20 then 30
      else 20)"

definition calculateTicketsPerUserTrend :: "db \<Rightarrow> quarters \<Rightarrow> int \<Rightarrow> component" where
  "calculateTicketsPerUserTrend d q clientId =
     (let currentTickets = ticket_findByDateRange d clientId (currentQuarterStart q) (currentQuarterEnd q);
          previousTickets = ticket_findByDateRange d clientId (previousQuarterStart q) (previousQuarterEnd q);
          userCount = user_countByClientId d clientId
      in if userCount = 0
         then \<lparr>score = 50, risk_level = None,
               evidence = Description ''No user data available for tickets per user calculation''\<rparr>
         else \<lparr>score = trendScore (trendPercentage d q clientId), risk_level = None,
               evidence = Measured [(''current_quarter_tickets'', array_length currentTickets),
                                    (''previous_quarter_tickets'', array_length previousTickets),
                                    (''user_count'', userCount),
                                    (''trend_percentage'', Math_round (trendPercentage d q clientId))]\<rparr>)"

text \<open>\<open>ticket.category || 'Unknown'\<close>: a missing or empty category counts as Unknown.\<close>

definition category_of :: "ticket \<Rightarrow> string" where
  "category_of t = (case category t of None \<Rightarrow> ''Unknown'' | Some c \<Rightarrow> if c = [] then ''Unknown'' else c)"

text \<open>
  The tickets are grouped by category in an object; its keys are the distinct
  categories and its values their counts. (A category named like a property that
  every object inherits, such as \<open>constructor\<close>, is outside the model.)
\<close>

definition calculateRepeatIssueRate :: "db \<Rightarrow> quarters \<Rightarrow> int \<Rightarrow> component" where
  "calculateRepeatIssueRate d q clientId =
     (let tickets = ticket_findByDateRange d clientId (currentQuarterStart q) (currentQuarterEnd q)
      in if array_length tickets = 0
         then \<lparr>score = 50, risk_level = None,
               evidence = Description ''No ticket data available for repeat issue calculation''\<rparr>
         else let categories = map category_of tickets;
                  keys = remdups categories;
                  repeatCategories = array_length (filter (\<lambda>c. 2 < count_list categories c) keys);
                  totalCategories = array_length keys;
                  repeatRate = (if 0 < totalCategories
                                then js_mul (js_div repeatCategories totalCategories) 100 else 0);
                  sc = Math_max 0 (js_sub 100 repeatRate)
              in \<lparr>score = Math_round sc, risk_level = None,
                  evidence = Measured [(''total_tickets'', array_length tickets),
                                       (''total_categories'', totalCategories),
                                       (''repeat_categories'', repeatCategories),
                                       (''repeat_rate'', Math_round repeatRate)]\<rparr>)"

definition calculateSLAPerformance :: "db \<Rightarrow> quarters \<Rightarrow> int \<Rightarrow> component" where
  "calculateSLAPerformance d q clientId =
     (let totalTickets =
            array_length (ticket_findByDateRange d clientId (currentQuarterStart q) (currentQuarterEnd q));
          slaMet = ticket_countSLAMet d clientId (currentQuarterStart q) (currentQuarterEnd q)
      in if totalTickets = 0
         then \<lparr>score = 50, risk_level = None,
               evidence = Description ''No ticket data available for SLA performance calculation''\<rparr>
         else let slaPercentage = js_mul (js_div slaMet totalTickets) 100
              in \<lparr>score = Math_round slaPercentage, risk_level = None,
                  evidence = Measured [(''total_tickets'', totalTickets), (''sla_met'', slaMet),
                                       (''sla_percentage'', Math_round slaPercentage)]\<rparr>)"

definition calculateReopenRate :: "db \<Rightarrow> quarters \<Rightarrow> int \<Rightarrow> component" where
  "calculateReopenRate d q clientId =
     (let totalTickets =
            array_length (ticket_findByDateRange d clientId (currentQuarterStart q) (currentQuarterEnd q));
          reopenedTickets = ticket_countReopened d clientId (currentQuarterStart q) (currentQuarterEnd q)
      in if totalTickets = 0
         then \<lparr>score = 50, risk_level = None,
               evidence = Description ''No ticket data available for reopen rate calculation''\<rparr>
         else let reopenPercentage = js_mul (js_div reopenedTickets totalTickets) 100;
                  sc = Math_max 0 (js_sub 100 (js_mul reopenPercentage 2))
              in \<lparr>score = Math_round sc, risk_level = None,
                  evidence = Measured [(''total_tickets'', totalTickets),
                                       (''reopened_tickets'', reopenedTickets),
                                       (''reopen_percentage'', Math_round reopenPercentage)]\<rparr>)"

text \<open>Weekend, or before 8 or from 18 local time; a ticket without a date is not counted.\<close>

definition after_hours :: "ticket \<Rightarrow> bool" where
  "after_hours t =
     (case created_date t of None \<Rightarrow> False
      | Some c \<Rightarrow> getDay c = 0 \<or> getDay c = 6 \<or> getHours c < 8 \<or> 18 \<le> getHours c)"

definition calculateAfterHoursIncidents :: "db \<Rightarrow> quarters \<Rightarrow> int \<Rightarrow> component" where
  "calculateAfterHoursIncidents d q clientId =
     (let tickets = ticket_findByDateRange d clientId (currentQuarterStart q) (currentQuarterEnd q)
      in if array_length tickets = 0
         then \<lparr>score = 50, risk_level = None,
               evidence = Description ''No ticket data available for after-hours calculation''\<rparr>
         else let afterHoursTickets = filter after_hours tickets;
                  afterHoursPercentage =
                    js_mul (js_div (array_length afterHoursTickets) (array_length tickets)) 100;
                  sc = Math_max 0 (js_sub 100 (js_mul afterHoursPercentage (js_lit (15/10))))
              in \<lparr>score = Math_round sc, risk_level = None,
                  evidence = Measured [(''total_tickets'', array_length tickets),
                                       (''after_hours_tickets'', array_length afterHoursTickets),
                                       (''after_hours_percentage'', Math_round afterHoursPercentage)]\<rparr>)"

definition calculateExperienceScore :: "db \<Rightarrow> quarters \<Rightarrow> int \<Rightarrow> score_result" where
  "calculateExperienceScore d q clientId =
     (let ticketsPerUserTrend = calculateTicketsPerUserTrend d q clientId;
          repeatIssueRate = calculateRepeatIssueRate d q clientId;
          slaPerformance = calculateSLAPerformance d q clientId;
          reopenRate = calculateReopenRate d q clientId;
          afterHoursIncidents = calculateAfterHoursIncidents d q clientId;
          totalScore = weighted_total
            [(ticketsPerUserTrend, js_lit (25/100)), (repeatIssueRate, js_lit (20/100)),
             (slaPerformance, js_lit (25/100)), (reopenRate, js_lit (15/100)),
             (afterHoursIncidents, js_lit (15/100))]
      in \<lparr>res_score = Some (Math_round totalScore), error = None,
          breakdown = [(''tickets_per_user_trend'', ticketsPerUserTrend, ''25%''),
                       (''repeat_issue_rate'', repeatIssueRate, ''20%''),
                       (''sla_performance'', slaPerformance, ''25%''),
                       (''reopen_rate'', reopenRate, ''15%''),
                       (''after_hours_incidents'', afterHoursIncidents, ''15%'')]\<rparr>)"

section \<open>Strings\<close>

text \<open>
  \<open>toLowerCase\<close> on the ASCII letters, \<open>includes\<close> as a search for a contiguous
  substring, and \<open>toString\<close> of an integer.
\<close>

definition toLowerCase_char :: "char \<Rightarrow> char" where
  "toLowerCase_char c =
     (let n = (of_char c :: nat) in if 65 \<le> n \<and> n \<le> 90 then char_of (n + 32) else c)"

definition toLowerCase :: "string \<Rightarrow> string" where
  "toLowerCase s = map toLowerCase_char s"

fun startsWith :: "string \<Rightarrow> string \<Rightarrow> bool" where
  "startsWith s [] = True"
| "startsWith [] (p # ps) = False"
| "startsWith (c # cs) (p # ps) = (c = p \<and> startsWith cs ps)"

fun js_includes :: "string \<Rightarrow> string \<Rightarrow> bool" where
  "js_includes [] p = startsWith [] p"
| "js_includes (c # cs) p = (startsWith (c # cs) p \<or> js_includes cs p)"

definition digit_char :: "nat \<Rightarrow> char" where
  "digit_char n = char_of (48 + n)"

fun string_of_nat :: "nat \<Rightarrow> string" where
  "string_of_nat n = (if n < 10 then [digit_char n] else string_of_nat (n div 10) @ [digit_char (n mod 10)])"

definition toString :: "int \<Rightarrow> string" where
  "toString i = (if i < 0 then CHR ''-'' # string_of_nat (nat (- i)) else string_of_nat (nat i))"

fun join :: "string \<Rightarrow> string list \<Rightarrow> string" where
  "join sep [] = []"
| "join sep [x] = x"
| "join sep (x # y # ys) = x @ sep @ join sep (y # ys)"

section \<open>adapters/base-adapter.js\<close>

text \<open>
  The values a credentials field can hold, and the credentials themselves: an object
  (its fields, a missing one reading as \<open>undefined\<close>) or anything else.
\<close>

datatype jsval = Undefined | Null | Bool bool | Str string | Num number

fun truthy :: "jsval \<Rightarrow> bool" where
  "truthy Undefined = False"
| "truthy Null = False"
| "truthy (Bool b) = b"
| "truthy (Str s) = (s \<noteq> [])"
| "truthy (Num n) = (n \<noteq> 0)"

datatype credentials = NotAnObject jsval | Object "(string \<times> jsval) list"

definition field :: "(string \<times> jsval) list \<Rightarrow> string \<Rightarrow> jsval" where
  "field obj name = (case map_of obj name of None \<Rightarrow> Undefined | Some v \<Rightarrow> v)"

datatype adapter_error = AdapterError (ae_message: string) (ae_details: string) (ae_statusCode: nat)

definition validateCredentials :: "credentials \<Rightarrow> string list \<Rightarrow> adapter_error + unit" where
  "validateCredentials creds requiredFields =
     (case creds of
        NotAnObject v \<Rightarrow> Inl (AdapterError ''Invalid credentials'' ''Credentials must be an object'' 400)
      | Object obj \<Rightarrow>
          (let missing = filter (\<lambda>f. \<not> truthy (field obj f)) requiredFields
           in if missing \<noteq> []
              then Inl (AdapterError ''Missing required credentials''
                          (''Missing fields: '' @ join '', '' missing) 400)
              else Inr ()))"

section \<open>adapters/immy-adapter.js\<close>

text \<open>
  A computer and a compliance report as the vendor returns them, with the fields the
  adapter reads; an identifier is held as the string its \<open>toString()\<close> gives. \<open>a || b\<close>
  on optional strings takes \<open>b\<close> when \<open>a\<close> is missing or empty.
\<close>

record computer =
  c_id :: "string option"
  c_computerId :: "string option"
  c_name :: "string option"
  c_computerName :: "string option"
  c_type :: "string option"
  c_operatingSystem :: "string option"
  c_os :: "string option"
  c_status :: "string option"
  c_health :: "string option"
  c_lastSeen :: "string option"

datatype compliance = Missing | Flag bool | Text string

record report =
  r_id :: "string option"
  r_computerId :: string
  r_baselineId :: string
  r_status :: "string option"
  r_compliant :: "bool option"

record normalized_device =
  nd_client_id :: "int option"
  nd_site_id :: "int option"
  nd_external_id :: "string option"
  nd_name :: "string option"
  nd_type :: string
  nd_os :: "string option"
  nd_managed :: bool
  nd_health_status :: string
  nd_last_seen :: "string option"

record normalized_control =
  nc_client_id :: "int option"
  nc_external_id :: string
  nc_control_type :: string
  nc_status :: string

text \<open>
  The normalized batch. Both adapters leave the other eight entity lists empty; they
  are not listed.
\<close>

record normalized_data =
  n_devices :: "normalized_device list"
  n_controls :: "normalized_control list"

definition falsy :: "string option \<Rightarrow> bool" where
  "falsy a = (case a of None \<Rightarrow> True | Some s \<Rightarrow> s = [])"

definition or_else :: "string option \<Rightarrow> string option \<Rightarrow> string option" where
  "or_else a b = (if falsy a then b else a)"

definition mapImmyTypeToDeviceType :: "string option \<Rightarrow> string" where
  "mapImmyTypeToDeviceType immyType =
     (if falsy immyType then ''endpoint''
      else let lower = toLowerCase (the immyType)
           in if js_includes lower ''server'' then ''server''
              else if js_includes lower ''workstation'' \<or> js_includes lower ''laptop'' \<or> js_includes lower ''desktop''
                   then ''endpoint''
              else ''endpoint'')"

definition mapImmyHealthStatus :: "string option \<Rightarrow> string" where
  "mapImmyHealthStatus immyStatus =
     (if falsy immyStatus then ''unknown''
      else let lower = toLowerCase (the immyStatus)
           in if js_includes lower ''healthy'' \<or> js_includes lower ''compliant'' \<or> js_includes lower ''pass''
                then ''healthy''
              else if js_includes lower ''warning'' \<or> js_includes lower ''drift'' then ''warning''
              else if js_includes lower ''critical'' \<or> js_includes lower ''fail'' \<or> js_includes lower ''non-compliant''
                then ''critical''
              else ''healthy'')"

definition normalizeDevice :: "computer \<Rightarrow> normalized_device" where
  "normalizeDevice c =
     \<lparr>nd_client_id = None, nd_site_id = None,
      nd_external_id = or_else (c_id c) (c_computerId c),
      nd_name = or_else (c_name c) (c_computerName c),
      nd_type = mapImmyTypeToDeviceType (c_type c),
      nd_os = or_else (c_operatingSystem c) (c_os c),
      nd_managed = True,
      nd_health_status = mapImmyHealthStatus (or_else (c_status c) (c_health c)),
      nd_last_seen = (if falsy (c_lastSeen c) then None else c_lastSeen c)\<rparr>"

definition mapComplianceStatus :: "compliance \<Rightarrow> string" where
  "mapComplianceStatus status =
     (case status of
        Flag b \<Rightarrow> if b then ''pass'' else ''fail''
      | Missing \<Rightarrow> ''unknown''
      | Text s \<Rightarrow>
          if s = [] then ''unknown''
          else let lower = toLowerCase s
               in if js_includes lower ''pass'' \<or> js_includes lower ''compliant'' then ''pass''
                  else if js_includes lower ''fail'' \<or> js_includes lower ''non-compliant'' then ''fail''
                  else ''unknown'')"

text \<open>\<open>report.status || report.compliant\<close>.\<close>

definition status_or_compliant :: "report \<Rightarrow> compliance" where
  "status_or_compliant r =
     (if falsy (r_status r)
      then (case r_compliant r of None \<Rightarrow> Missing | Some b \<Rightarrow> Flag b)
      else Text (the (r_status r)))"

definition normalizeControl :: "report \<Rightarrow> normalized_control" where
  "normalizeControl r =
     \<lparr>nc_client_id = None,
      nc_external_id = (if falsy (r_id r) then r_computerId r @ ''-'' @ r_baselineId r else the (r_id r)),
      nc_control_type = ''immy_baseline'',
      nc_status = mapComplianceStatus (status_or_compliant r)\<rparr>"

text \<open>
  The vendor API: what each endpoint answers, a failure carrying the HTTP status (if
  there was a response) and the message. A fetch returns its outcome and the requests
  it sent; the three fetches of \<open>Promise.all\<close> are logged one after the other.
\<close>

datatype http_error = HttpError (response_status: "nat option") (error_message: string)

record immy_api =
  get_computers :: "http_error + computer list"
  get_devices :: "http_error + computer list"
  get_baselines :: "http_error + string list"
  get_compliance_reports :: "http_error + report list"
  get_drift_reports :: "http_error + report list"

definition fetchComputers :: "immy_api \<Rightarrow> (http_error + computer list) \<times> string list" where
  "fetchComputers api =
     (case get_computers api of
        Inr data \<Rightarrow> (Inr data, [''/computers''])
      | Inl e \<Rightarrow> (get_devices api, [''/computers'', ''/devices'']))"

definition fetchBaselines :: "immy_api \<Rightarrow> string list \<times> string list" where
  "fetchBaselines api =
     (case get_baselines api of
        Inr data \<Rightarrow> (data, [''/baselines''])
      | Inl e \<Rightarrow> ([], [''/baselines'']))"

definition fetchComplianceReports :: "immy_api \<Rightarrow> report list \<times> string list" where
  "fetchComplianceReports api =
     (case get_compliance_reports api of
        Inr data \<Rightarrow> (data, [''/compliance/reports''])
      | Inl e \<Rightarrow>
          (case get_drift_reports api of
             Inr data \<Rightarrow> (data, [''/compliance/reports'', ''/drift-reports''])
           | Inl e2 \<Rightarrow> ([], [''/compliance/reports'', ''/drift-reports''])))"

text \<open>The \<open>catch\<close> of \<open>sync\<close>: what a failed request is rethrown as.\<close>

definition immy_rethrow :: "http_error \<Rightarrow> adapter_error" where
  "immy_rethrow e =
     (if response_status e = Some 401 \<or> response_status e = Some 403
      then AdapterError ''Immy.Bot authentication failed'' ''Invalid API key'' 401
      else AdapterError ''Immy.Bot API error'' (error_message e)
             (case response_status e of None \<Rightarrow> 500 | Some st \<Rightarrow> if st = 0 then 500 else st))"

text \<open>\<open>sync\<close> returns its outcome and the requests that were sent to the vendor.\<close>

definition ImmyAdapter_sync :: "credentials \<Rightarrow> immy_api \<Rightarrow> (adapter_error + normalized_data) \<times> string list" where
  "ImmyAdapter_sync creds api =
     (case validateCredentials creds [''apiKey'', ''baseUrl''] of
        Inl e \<Rightarrow> (Inl e, [])
      | Inr u \<Rightarrow>
          (let (computers, log1) = fetchComputers api;
               (baselines, log2) = fetchBaselines api;
               (complianceReports, log3) = fetchComplianceReports api
           in case computers of
                Inl e \<Rightarrow> (Inl (immy_rethrow e), log1 @ log2 @ log3)
              | Inr cs \<Rightarrow>
                  (Inr \<lparr>n_devices = map normalizeDevice cs,
                        n_controls = map normalizeControl complianceReports\<rparr>,
                   log1 @ log2 @ log3)))"

section \<open>adapters/connectwise-adapter.js\<close>

text \<open>
  The class \<open>ConnectWiseAdapter\<close>, which the route \<open>POST /sync/connectwise\<close> instantiates.
  A failed request carries the response status, if there was a response, the message
  of the error and the body of the response. The response interceptor that
  \<open>initializeClient\<close> installs turns status 429 into an \<open>AdapterError\<close> and throws every
  other error on unchanged.
\<close>

datatype cw_http_error = CwHttpError (cw_status: "nat option") (cw_message: string) (cw_data: string)

datatype cw_thrown = Transport cw_http_error | Rejected adapter_error

definition cw_interceptor :: "cw_http_error \<Rightarrow> cw_thrown" where
  "cw_interceptor e =
     (if cw_status e = Some 429
      then Rejected (AdapterError ''ConnectWise rate limit exceeded'' (cw_data e) 429)
      else Transport e)"

text \<open>
  The ConnectWise server, as the adapter sees it: the answer to each of the four
  requests. Every fetch sends one request, recorded by its path.
\<close>

record ('co, 'ag, 'ti, 'cf) connectwise_api =
  get_companies :: "cw_http_error + 'co list"
  get_agreements :: "cw_http_error + 'ag list"
  get_tickets :: "cw_http_error + 'ti list"
  get_configurations :: "cw_http_error + 'cf list"

definition cw_get :: "cw_http_error + 'a list \<Rightarrow> string \<Rightarrow> (cw_thrown + 'a list) \<times> string list" where
  "cw_get response path =
     (case response of Inl e \<Rightarrow> (Inl (cw_interceptor e), [path]) | Inr data \<Rightarrow> (Inr data, [path]))"

definition fetchCompanies :: "('co, 'ag, 'ti, 'cf) connectwise_api \<Rightarrow> (cw_thrown + 'co list) \<times> string list" where
  "fetchCompanies api = cw_get (get_companies api) ''/company/companies''"

definition fetchAgreements :: "('co, 'ag, 'ti, 'cf) connectwise_api \<Rightarrow> (cw_thrown + 'ag list) \<times> string list" where
  "fetchAgreements api = cw_get (get_agreements api) ''/finance/agreements''"

definition fetchTickets :: "('co, 'ag, 'ti, 'cf) connectwise_api \<Rightarrow> (cw_thrown + 'ti list) \<times> string list" where
  "fetchTickets api = cw_get (get_tickets api) ''/service/tickets''"

definition fetchConfigurations :: "('co, 'ag, 'ti, 'cf) connectwise_api \<Rightarrow> (cw_thrown + 'cf list) \<times> string list" where
  "fetchConfigurations api = cw_get (get_configurations api) ''/company/configurations''"

text \<open>
  The \<open>catch\<close> block of \<open>sync\<close>: status 401 first, then an \<open>AdapterError\<close> is thrown on,
  anything else is wrapped with \<open>error.response?.status || 500\<close>.
\<close>

definition connectwise_rethrow :: "cw_thrown \<Rightarrow> adapter_error" where
  "connectwise_rethrow thrown =
     (case thrown of
        Rejected e \<Rightarrow> e
      | Transport e \<Rightarrow>
          if cw_status e = Some 401
          then AdapterError ''ConnectWise authentication failed'' ''Invalid API credentials'' 401
          else AdapterError ''ConnectWise API error'' (cw_message e)
                 (case cw_status e of None \<Rightarrow> 500 | Some st \<Rightarrow> if st = 0 then 500 else st))"

text \<open>
  \<open>sync\<close> validates the five required fields, then starts the four fetches together
  (\<open>Promise.all\<close>), so all four requests are sent whatever their answers; the first
  failure in the order of the array is the one reported. The record normalizers
  (\<open>normalizeClient\<close>, \<open>normalizeSites\<close>, \<open>normalizeContacts\<close>, \<open>normalizeDevice\<close>,
  \<open>normalizeAgreement\<close>, \<open>normalizeTicket\<close>) run inside the \<open>try\<close> after all four answers
  have arrived; they are the parameter \<open>normalizer\<close>, which returns the batch or the
  message of the error it throws.
\<close>

definition ConnectWiseAdapter_sync ::
  "('co list \<Rightarrow> 'ag list \<Rightarrow> 'ti list \<Rightarrow> 'cf list \<Rightarrow> string + 'batch) \<Rightarrow> credentials \<Rightarrow>
   ('co, 'ag, 'ti, 'cf) connectwise_api \<Rightarrow> (adapter_error + 'batch) \<times> string list" where
  "ConnectWiseAdapter_sync normalizer creds api =
     (case validateCredentials creds [''companyId'', ''publicKey'', ''privateKey'', ''clientId'', ''baseUrl''] of
        Inl e \<Rightarrow> (Inl e, [])
      | Inr u \<Rightarrow>
          (let (companies, log1) = fetchCompanies api;
               (agreements, log2) = fetchAgreements api;
               (tickets, log3) = fetchTickets api;
               (configurations, log4) = fetchConfigurations api;
               sent = log1 @ log2 @ log3 @ log4
           in case companies of Inl e \<Rightarrow> (Inl (connectwise_rethrow e), sent) | Inr cs \<Rightarrow>
              (case agreements of Inl e \<Rightarrow> (Inl (connectwise_rethrow e), sent) | Inr ags \<Rightarrow>
              (case tickets of Inl e \<Rightarrow> (Inl (connectwise_rethrow e), sent) | Inr ts \<Rightarrow>
              (case configurations of Inl e \<Rightarrow> (Inl (connectwise_rethrow e), sent) | Inr cfs \<Rightarrow>
              (case normalizer cs ags ts cfs of
                 Inl message \<Rightarrow> (Inl (AdapterError ''ConnectWise API error'' message 500), sent)
               | Inr normalized \<Rightarrow> (Inr normalized, sent)))))))"

section \<open>adapters/m365-adapter.js\<close>

text \<open>
  The module exports \<open>M365AdapterSimplified\<close>, the class the sync route instantiates:
  its \<open>sync\<close> logs a warning and returns the empty batch.
\<close>

definition M365AdapterSimplified_sync :: "credentials \<Rightarrow> (adapter_error + normalized_data) \<times> string list" where
  "M365AdapterSimplified_sync creds = (Inr \<lparr>n_devices = [], n_controls = []\<rparr>, [])"

section \<open>qbr/narrative-generator.js\<close>

datatype narrative_error =
    OpenAIError string string
  | HallucinationDetectedError string
  | OtherError string

fun message :: "narrative_error \<Rightarrow> string" where
  "message (OpenAIError m details) = m"
| "message (HallucinationDetectedError m) = m"
| "message (OtherError m) = m"

record recommendation =
  title :: string
  rec_evidence :: "string list option"

record narrative_input =
  recent_tickets :: "ticket list option"
  lifecycle_items :: "device list option"

definition is_digit :: "char \<Rightarrow> bool" where
  "is_digit c = (let n = (of_char c :: nat) in 48 \<le> n \<and> n \<le> 57)"

fun strip_prefix :: "string \<Rightarrow> string \<Rightarrow> string option" where
  "strip_prefix [] s = Some s"
| "strip_prefix (p # ps) [] = None"
| "strip_prefix (p # ps) (c # cs) = (if p = c then strip_prefix ps cs else None)"

text \<open>
  \<open>/\[Ticket #(\d+)\]/\<close> anchored at the start of \<open>s\<close>: the group if it matches. The
  digits are taken greedily; a closing bracket is no digit, so no shorter run matches.
\<close>

definition ticket_at :: "string \<Rightarrow> string option" where
  "ticket_at s =
     (case strip_prefix ''[Ticket #'' s of
        None \<Rightarrow> None
      | Some rest \<Rightarrow>
          (let ds = takeWhile is_digit rest; after = dropWhile is_digit rest
           in if ds \<noteq> [] \<and> startsWith after '']'' then Some ds else None))"

text \<open>\<open>/\[Device: ([^\]]+)\]/\<close> anchored at the start of \<open>s\<close>.\<close>

definition device_at :: "string \<Rightarrow> string option" where
  "device_at s =
     (case strip_prefix ''[Device: '' s of
        None \<Rightarrow> None
      | Some rest \<Rightarrow>
          (let nm = takeWhile (\<lambda>c. c \<noteq> CHR '']'') rest; after = dropWhile (\<lambda>c. c \<noteq> CHR '']'') rest
           in if nm \<noteq> [] \<and> startsWith after '']'' then Some nm else None))"

text \<open>\<open>citation.match(re)\<close>: the group of the leftmost match.\<close>

fun match_first :: "(string \<Rightarrow> string option) \<Rightarrow> string \<Rightarrow> string option" where
  "match_first anchored [] = anchored []"
| "match_first anchored (c # cs) =
     (case anchored (c # cs) of Some g \<Rightarrow> Some g | None \<Rightarrow> match_first anchored cs)"

definition ticketExists :: "narrative_input \<Rightarrow> string \<Rightarrow> bool" where
  "ticketExists input ticketId =
     (case recent_tickets input of
        None \<Rightarrow> False
      | Some ts \<Rightarrow> list_ex (\<lambda>t. ticket_external_id t = Some ticketId \<or> toString (ticket_id t) = ticketId) ts)"

definition deviceExists :: "narrative_input \<Rightarrow> string \<Rightarrow> bool" where
  "deviceExists input deviceName =
     (case lifecycle_items input of
        None \<Rightarrow> False
      | Some ds \<Rightarrow> list_ex (\<lambda>d. device_name d = deviceName) ds)"

definition quote :: char where
  "quote = CHR 0x22"

text \<open>The warnings one citation logs.\<close>

definition check_citation :: "narrative_input \<Rightarrow> string \<Rightarrow> string list" where
  "check_citation input citation =
     (case match_first ticket_at citation of
        None \<Rightarrow> []
      | Some ticketId \<Rightarrow>
          if ticketExists input ticketId then []
          else [''Ticket #'' @ ticketId @ '' cited but not found in data''])
     @
     (case match_first device_at citation of
        None \<Rightarrow> []
      | Some deviceName \<Rightarrow>
          if deviceExists input deviceName then []
          else [''Device '' @ [quote] @ deviceName @ [quote] @ '' cited but not found in data''])"

text \<open>The message of the error for a recommendation without evidence.\<close>

definition no_evidence_message :: "recommendation \<Rightarrow> string" where
  "no_evidence_message rec = ''Recommendation '' @ [quote] @ title rec @ [quote] @ '' has no evidence citations''"

text \<open>
  \<open>validateCitations\<close> returns nothing; it throws or logs. The model returns the error
  thrown, if any, and the warnings logged up to then.
\<close>

fun validateCitations :: "recommendation list \<Rightarrow> narrative_input \<Rightarrow> narrative_error option \<times> string list" where
  "validateCitations [] input = (None, [])"
| "validateCitations (rec # recs) input =
     (case rec_evidence rec of
        None \<Rightarrow>
          (Some (HallucinationDetectedError (no_evidence_message rec)), [])
      | Some ev \<Rightarrow>
          if ev = []
          then (Some (HallucinationDetectedError (no_evidence_message rec)), [])
          else (let (err, warnings) = validateCitations recs input
                in (err, concat (map (check_citation input) ev) @ warnings)))"

record narrative =
  trends :: string
  executive_summary :: string
  recommendations :: "recommendation list"
  discussion_points :: "string list"

text \<open>
  \<open>generateNarrative\<close> awaits the four generation jobs, validates the recommendations
  and returns the narrative; whatever is thrown inside its \<open>try\<close> is caught and
  rethrown as an \<open>OpenAIError\<close>. The outcomes of the four jobs are inputs; of several
  failed jobs the first in the array is taken as the one \<open>Promise.all\<close> rejects with.
\<close>

definition generateNarrative ::
  "narrative_error + string \<Rightarrow> narrative_error + string \<Rightarrow> narrative_error + recommendation list \<Rightarrow>
   narrative_error + string list \<Rightarrow> narrative_input \<Rightarrow> narrative_error + narrative" where
  "generateNarrative spotTrends writeExecutiveSummary synthesizeActions prepareDiscussionPoints input =
     (let rethrow = (\<lambda>e. Inl (OpenAIError ''Failed to generate narrative'' (message e)))
      in case spotTrends of Inl e \<Rightarrow> rethrow e | Inr tr \<Rightarrow>
         (case writeExecutiveSummary of Inl e \<Rightarrow> rethrow e | Inr executiveSummary \<Rightarrow>
         (case synthesizeActions of Inl e \<Rightarrow> rethrow e | Inr recs \<Rightarrow>
         (case prepareDiscussionPoints of Inl e \<Rightarrow> rethrow e | Inr discussionPoints \<Rightarrow>
         (case fst (validateCitations recs input) of
            Some e \<Rightarrow> rethrow e
          | None \<Rightarrow> Inr \<lparr>trends = tr, executive_summary = executiveSummary,
                         recommendations = recs, discussion_points = discussionPoints\<rparr>)))))"

section \<open>Score bounds\<close>

text \<open>A score between 0 and 100; a result whose total, if any, and components are.\<close>

definition in_bounds :: "number \<Rightarrow> bool" where
  "in_bounds x = (0 \<le> x \<and> x \<le> 100)"

definition within_bounds :: "score_result \<Rightarrow> bool" where
  "within_bounds r =
     ((case res_score r of None \<Rightarrow> True | Some s \<Rightarrow> in_bounds s)
      \<and> list_all (\<lambda>(name, c, weight). in_bounds (score c)) (breakdown r))"

section \<open>Weights and the spec's step function\<close>




text \<open>The components of a result, in the order of its breakdown.\<close>

definition components :: "score_result \<Rightarrow> component list" where
  "components r = map (\<lambda>(name, c, weight). c) (breakdown r)"


text \<open>
  The step function for the tickets-per-user trend as the specification words it:
  at most -20 gives 90, at most -10 gives 75, below 0 gives 60, 0 gives 50, below 10
  gives 40, below 20 gives 30, anything else 20. It is compared with \<open>trendScore\<close>.
\<close>

definition spec_trend_step :: "number \<Rightarrow> number" where
  "spec_trend_step t =
     (if t \<le> - 20 then 90
      else if t \<le> - 10 then 75
      else if t < 0 then 60
      else if t = 0 then 50
      else if t < 10 then 40
      else if t < 20 then 30
      else 20)"

section \<open>Example data\<close>

definition a_device :: "bool \<Rightarrow> string \<Rightarrow> device" where
  "a_device m h = \<lparr>device_client_id = 1, device_name = ''WS-ACCT-01'', managed = m, health_status = h\<rparr>"

definition a_control :: "string \<Rightarrow> string \<Rightarrow> control" where
  "a_control t s = \<lparr>control_client_id = 1, control_type = t, control_status = s\<rparr>"

definition a_user :: user where
  "a_user = \<lparr>user_client_id = 1, mfa_enabled = False, user_risk_level = ''none''\<rparr>"

definition a_ticket :: "int \<Rightarrow> ticket" where
  "a_ticket t = \<lparr>ticket_id = 123, ticket_client_id = 1, ticket_external_id = None, category = None,
     sla_met = True, reopen_count = 0, created_date = Some \<lparr>getTime = t, getDay = 1, getHours = 9\<rparr>\<rparr>"

definition scenario_db :: db where
  "scenario_db =
     \<lparr>devices = replicate 42 (a_device True ''healthy'') @ replicate 3 (a_device True ''warning'')
                 @ replicate 5 (a_device False ''warning''),
      controls = replicate 18 (a_control ''m365_secure_score'' ''pass'')
                 @ replicate 7 (a_control ''m365_secure_score'' ''fail'')
                 @ replicate 22 (a_control ''immy_baseline'' ''pass'')
                 @ replicate 3 (a_control ''immy_baseline'' ''fail''),
      users = [], tickets = [], risks = []\<rparr>"

definition no_device_db :: db where
  "no_device_db =
     \<lparr>devices = [], controls = [a_control ''immy_baseline'' ''pass''], users = [a_user],
      tickets = [a_ticket 150], risks = []\<rparr>"

definition one_device_db :: db where
  "one_device_db =
     \<lparr>devices = [a_device True ''healthy''], controls = [], users = [], tickets = [], risks = []\<rparr>"

definition q1 :: quarters where
  "q1 = \<lparr>currentQuarterStart = 100, currentQuarterEnd = 199,
          previousQuarterStart = 0, previousQuarterEnd = 99\<rparr>"

definition trend_db :: db where
  "trend_db =
     \<lparr>devices = [], controls = [], users = [a_user],
      tickets = replicate 4 (a_ticket 150) @ replicate 5 (a_ticket 50), risks = []\<rparr>"

definition empty_db :: db where
  "empty_db = \<lparr>devices = [], controls = [], users = [], tickets = [], risks = []\<rparr>"


definition offline_computer :: computer where
  "offline_computer = \<lparr>c_id = Some ''7'', c_computerId = None, c_name = Some ''WS-ACCT-01'',
     c_computerName = None, c_type = Some ''Workstation'', c_operatingSystem = Some ''Windows 11'',
     c_os = None, c_status = Some ''offline'', c_health = None, c_lastSeen = None\<rparr>"

definition quiet_api :: immy_api where
  "quiet_api = \<lparr>get_computers = Inr [], get_devices = Inr [], get_baselines = Inr [],
     get_compliance_reports = Inr [], get_drift_reports = Inr []\<rparr>"

definition quiet_connectwise :: "(unit, unit, unit, unit) connectwise_api" where
  "quiet_connectwise = \<lparr>get_companies = Inr [], get_agreements = Inr [], get_tickets = Inr [],
     get_configurations = Inr []\<rparr>"

definition count_records :: "unit list \<Rightarrow> unit list \<Rightarrow> unit list \<Rightarrow> unit list \<Rightarrow> string + nat" where
  "count_records cs ags ts cfs = Inr (length cs + length ags + length ts + length cfs)"

definition full_connectwise_credentials :: "(string \<times> jsval) list" where
  "full_connectwise_credentials =
     [(''companyId'', Str ''acme''), (''publicKey'', Str ''pub''), (''privateKey'', Str ''priv''),
      (''clientId'', Str ''cid''), (''baseUrl'', Str ''https://cw'')]"

definition example_ticket :: ticket where
  "example_ticket = \<lparr>ticket_id = 123, ticket_client_id = 1, ticket_external_id = None,
     category = None, sla_met = True, reopen_count = 0, created_date = None\<rparr>"

definition example_input :: narrative_input where
  "example_input = \<lparr>recent_tickets = Some [example_ticket], lifecycle_items = Some []\<rparr>"

definition unfounded :: recommendation where
  "unfounded = \<lparr>title = ''Patch servers'', rec_evidence = Some []\<rparr>"


section \<open>Rounding to the nearest double is monotone\<close>

lemma rhe_bounds: "\<lfloor>x\<rfloor> \<le> round_half_even x" "round_half_even x \<le> \<lfloor>x\<rfloor> + 1"
  by (simp_all add: round_half_even_def Let_def)

lemma rhe_of_int [simp]: "round_half_even (of_int k) = k"
  by (simp add: round_half_even_def Let_def)

lemma rhe_le_int: "x \<le> of_int k \<Longrightarrow> round_half_even x \<le> k"
proof -
  assume h: "x \<le> of_int k"
  show ?thesis
  proof (cases "x = of_int k")
    case True then show ?thesis by simp
  next
    case False
    with h have "x < of_int k" by simp
    then have "\<lfloor>x\<rfloor> < k" by (simp add: floor_less_iff)
    with rhe_bounds(2)[of x] show ?thesis by linarith
  qed
qed

lemma int_le_rhe: "of_int k \<le> x \<Longrightarrow> k \<le> round_half_even x"
proof -
  assume "of_int k \<le> x"
  then have "k \<le> \<lfloor>x\<rfloor>" by (simp add: le_floor_iff)
  with rhe_bounds(1)[of x] show ?thesis by linarith
qed

lemma rhe_mono: "x \<le> y \<Longrightarrow> round_half_even x \<le> round_half_even y"
proof -
  assume h: "x \<le> y"
  have fl: "\<lfloor>x\<rfloor> \<le> \<lfloor>y\<rfloor>" using h by (rule floor_mono)
  show ?thesis
  proof (cases "\<lfloor>x\<rfloor> = \<lfloor>y\<rfloor>")
    case True
    then have "x - of_int \<lfloor>x\<rfloor> \<le> y - of_int \<lfloor>y\<rfloor>" using h by simp
    then show ?thesis using True by (auto simp add: round_half_even_def Let_def)
  next
    case False
    with fl have "\<lfloor>x\<rfloor> + 1 \<le> \<lfloor>y\<rfloor>" by simp
    with rhe_bounds(2)[of x] rhe_bounds(1)[of y] show ?thesis by linarith
  qed
qed

lemma rhe_minus: "round_half_even (- x) = - round_half_even x"
proof (cases "x = of_int \<lfloor>x\<rfloor>")
  case True
  then obtain k where "x = of_int k" ..
  then have "- x = of_int (- k)" by simp
  then show ?thesis using \<open>x = of_int k\<close> by (simp only: rhe_of_int)
next
  case False
  have fl: "\<lfloor>- x\<rfloor> = - \<lfloor>x\<rfloor> - 1"
    using False by (simp add: floor_minus ceiling_altdef)
  have d: "- x - of_int (- \<lfloor>x\<rfloor> - 1) = 1 - (x - of_int \<lfloor>x\<rfloor>)" by simp
  show ?thesis
    unfolding round_half_even_def Let_def fl d
    by (auto simp: algebra_simps)
qed

text \<open>The binary exponent brackets the magnitude between two powers of two.\<close>

lemma expo_bounds:
  assumes "x \<noteq> 0"
  shows "2 powi (expo x) \<le> \<bar>x\<bar>" and "\<bar>x\<bar> < 2 powi (expo x + 1)"
proof -
  define a where "a = \<bar>x\<bar>"
  have apos: "0 < a" using assms by (simp add: a_def)
  have "2 powi (expo x) \<le> a \<and> a < 2 powi (expo x + 1)"
  proof (cases "1 \<le> a")
    case True
    define n where "n = \<lfloor>a\<rfloor>"
    have n1: "1 \<le> n" using True by (simp add: n_def le_floor_iff)
    then have npos: "0 < n" by simp
    have e: "expo x = bitlen n - 1" using True by (simp add: expo_def a_def n_def Let_def)
    have bl: "1 \<le> bitlen n" using npos by (simp add: bitlen_alt_def)
    from bitlen_bounds[OF npos] have b1: "2 ^ nat (bitlen n - 1) \<le> n" and b2: "n < 2 ^ nat (bitlen n)" by auto
    have "(of_int (2 ^ nat (bitlen n - 1)) :: rat) \<le> of_int n" using b1 by (simp only: of_int_le_iff)
    then have "(2::rat) ^ nat (bitlen n - 1) \<le> of_int n" by simp
    moreover have "(of_int n :: rat) \<le> a" by (simp add: n_def)
    ultimately have lo: "(2::rat) ^ nat (bitlen n - 1) \<le> a" by linarith
    have "n + 1 \<le> 2 ^ nat (bitlen n)" using b2 by simp
    then have "(of_int (n + 1) :: rat) \<le> of_int (2 ^ nat (bitlen n))" by (simp only: of_int_le_iff)
    then have n2: "(of_int (n + 1) :: rat) \<le> 2 ^ nat (bitlen n)" by simp
    have "a < of_int (n + 1)" using floor_correct[of a] by (simp add: n_def)
    then have hi: "a < (2::rat) ^ nat (bitlen n)" using n2 by linarith
    have p1: "(2::rat) powi (bitlen n - 1) = 2 ^ nat (bitlen n - 1)" using bl by (simp add: power_int_def)
    have p2: "(2::rat) powi (bitlen n - 1 + 1) = 2 ^ nat (bitlen n)" using bl by (simp add: power_int_def)
    show ?thesis using lo hi p1 p2 e by simp
  next
    case False
    then have a1: "a < 1" by simp
    define m where "m = \<lceil>1 / a\<rceil>"
    define k where "k = bitlen (m - 1)"
    have "1 < 1 / a" using apos a1 by simp
    then have m2: "2 \<le> m" unfolding m_def by (simp add: le_ceiling_iff)
    then have mpos: "0 < m - 1" by simp
    have e: "expo x = - k" using False by (simp add: expo_def a_def m_def k_def Let_def)
    have k1: "1 \<le> k" using mpos by (simp add: k_def bitlen_alt_def)
    from bitlen_bounds[OF mpos] have b1: "2 ^ nat (k - 1) \<le> m - 1" and b2: "m - 1 < 2 ^ nat k"
      by (auto simp: k_def)
    have "m \<le> 2 ^ nat k" using b2 by simp
    then have "(of_int m :: rat) \<le> of_int (2 ^ nat k)" by (simp only: of_int_le_iff)
    then have mk: "(of_int m :: rat) \<le> 2 ^ nat k" by simp
    have "1 / a \<le> of_int m" by (simp add: m_def)
    with mk have "1 / a \<le> (2::rat) ^ nat k" by linarith
    then have "1 \<le> (2::rat) ^ nat k * a" using apos by (simp add: divide_le_eq)
    then have lo: "1 / (2::rat) ^ nat k \<le> a" by (simp add: divide_le_eq mult.commute)
    have "(of_int (2 ^ nat (k - 1)) :: rat) \<le> of_int (m - 1)" using b1 by (simp only: of_int_le_iff)
    then have km: "(2::rat) ^ nat (k - 1) \<le> of_int (m - 1)" by simp
    have "(of_int (m - 1) :: rat) < 1 / a" unfolding m_def using ceiling_correct[of "1/a"] by simp
    with km have "(2::rat) ^ nat (k - 1) < 1 / a" by linarith
    then have "(2::rat) ^ nat (k - 1) * a < 1" using apos by (simp add: less_divide_eq)
    then have hi: "a < 1 / (2::rat) ^ nat (k - 1)" by (simp add: less_divide_eq mult.commute)
    have pk: "(2::rat) powi k = 2 ^ nat k" using k1 by (simp add: power_int_def)
    have p1: "(2::rat) powi (- k) = 1 / 2 ^ nat k"
      by (simp only: power_int_minus pk inverse_eq_divide)
    have pk1: "(2::rat) powi (k - 1) = 2 ^ nat (k - 1)" using k1 by (simp add: power_int_def)
    have "(2::rat) powi (- k + 1) = 2 powi (- (k - 1))" by simp
    also have "\<dots> = 1 / 2 ^ nat (k - 1)"
      by (simp only: power_int_minus pk1 inverse_eq_divide)
    finally have p2: "(2::rat) powi (- k + 1) = 1 / 2 ^ nat (k - 1)" .
    show ?thesis using lo hi p1 p2 e by simp
  qed
  then show "2 powi (expo x) \<le> \<bar>x\<bar>" and "\<bar>x\<bar> < 2 powi (expo x + 1)" by (simp_all add: a_def)
qed

lemma quantum_pos: "0 < quantum x"
  by (simp add: quantum_def)

lemma quantum_scale: "quantum x * 2 ^ 52 = 2 powi (expo x)"
proof -
  have "(2::rat) powi (expo x - 52 + 52) = 2 powi (expo x - 52) * 2 powi 52"
    by (rule power_int_add) simp
  then show ?thesis by (simp add: quantum_def)
qed

lemma quantum_scale': "quantum x * 2 ^ 53 = 2 powi (expo x + 1)"
proof -
  have "(2::rat) powi (expo x - 52 + 53) = 2 powi (expo x - 52) * 2 powi 53"
    by (rule power_int_add) simp
  moreover have "expo x - 52 + 53 = expo x + 1" by simp
  ultimately show ?thesis by (simp add: quantum_def)
qed

text \<open>A positive number rounds to a double of its own binade, or to the next power of two.\<close>

lemma rnd_pos_bounds:
  assumes "0 < x"
  shows "2 powi (expo x) \<le> rnd x" and "rnd x \<le> 2 powi (expo x + 1)"
proof -
  have x0: "x \<noteq> 0" using assms by simp
  have q: "0 < quantum x" by (rule quantum_pos)
  from expo_bounds[OF x0] assms have lo: "2 powi (expo x) \<le> x" and hi: "x < 2 powi (expo x + 1)"
    by simp_all
  have "quantum x * 2 ^ 52 \<le> x" using lo by (simp only: quantum_scale)
  then have "(2::rat) ^ 52 \<le> x / quantum x" using q by (simp add: le_divide_eq mult.commute)
  then have "(of_int (2 ^ 52) :: rat) \<le> x / quantum x" by simp
  then have "2 ^ 52 \<le> round_half_even (x / quantum x)" by (rule int_le_rhe)
  then have "(of_int (2 ^ 52) :: rat) \<le> of_int (round_half_even (x / quantum x))"
    by (simp only: of_int_le_iff)
  then have "(2::rat) ^ 52 * quantum x \<le> of_int (round_half_even (x / quantum x)) * quantum x"
    using q by (simp add: mult_le_cancel_right)
  then show "2 powi (expo x) \<le> rnd x"
    using x0 quantum_scale[of x] by (simp add: rnd_def mult.commute)
  have "x \<le> quantum x * 2 ^ 53" using hi by (simp only: quantum_scale')
  then have "x / quantum x \<le> (2::rat) ^ 53" using q by (simp add: divide_le_eq mult.commute)
  then have "x / quantum x \<le> (of_int (2 ^ 53) :: rat)" by simp
  then have "round_half_even (x / quantum x) \<le> 2 ^ 53" by (rule rhe_le_int)
  then have "(of_int (round_half_even (x / quantum x)) :: rat) \<le> of_int (2 ^ 53)"
    by (simp only: of_int_le_iff)
  then have "of_int (round_half_even (x / quantum x)) * quantum x \<le> (2::rat) ^ 53 * quantum x"
    using q by (simp add: mult_le_cancel_right)
  then show "rnd x \<le> 2 powi (expo x + 1)"
    using x0 quantum_scale'[of x] by (simp add: rnd_def mult.commute)
qed

lemma expo_mono_pos:
  assumes "0 < x" "x \<le> y"
  shows "expo x \<le> expo y"
proof (rule ccontr)
  assume "\<not> expo x \<le> expo y"
  then have "expo y + 1 \<le> expo x" by simp
  then have "(2::rat) powi (expo y + 1) \<le> 2 powi (expo x)"
    by (rule power_int_increasing) simp
  moreover have "2 powi (expo x) \<le> x" using expo_bounds(1)[of x] assms by simp
  moreover have "y < 2 powi (expo y + 1)" using expo_bounds(2)[of y] assms by simp
  ultimately show False using assms by linarith
qed

lemma rnd_mono_pos:
  assumes "0 < x" "x \<le> y"
  shows "rnd x \<le> rnd y"
proof (cases "expo x = expo y")
  case True
  then have q: "quantum x = quantum y" by (simp add: quantum_def)
  have "x / quantum y \<le> y / quantum y"
    using assms quantum_pos[of y] by (simp add: divide_right_mono)
  then have "round_half_even (x / quantum y) \<le> round_half_even (y / quantum y)" by (rule rhe_mono)
  then have "(of_int (round_half_even (x / quantum y)) :: rat) \<le> of_int (round_half_even (y / quantum y))"
    by (simp only: of_int_le_iff)
  then have "of_int (round_half_even (x / quantum y)) * quantum y
      \<le> of_int (round_half_even (y / quantum y)) * quantum y"
    using quantum_pos[of y] by (simp add: mult_le_cancel_right)
  then show ?thesis using assms q by (simp add: rnd_def)
next
  case False
  with expo_mono_pos[OF assms] have "expo x + 1 \<le> expo y" by simp
  then have "(2::rat) powi (expo x + 1) \<le> 2 powi (expo y)"
    by (rule power_int_increasing) simp
  moreover have "rnd x \<le> 2 powi (expo x + 1)" using assms by (intro rnd_pos_bounds)
  moreover have "2 powi (expo y) \<le> rnd y" using assms by (intro rnd_pos_bounds) simp
  ultimately show ?thesis by linarith
qed

lemma expo_minus: "expo (- x) = expo x"
  by (simp add: expo_def)

lemma rnd_minus: "rnd (- x) = - rnd x"
  by (simp add: rnd_def quantum_def expo_minus rhe_minus)

lemma rnd_nonneg: "0 \<le> x \<Longrightarrow> 0 \<le> rnd x"
proof -
  assume "0 \<le> x"
  show ?thesis
  proof (cases "x = 0")
    case True then show ?thesis by (simp add: rnd_def)
  next
    case False
    with \<open>0 \<le> x\<close> have "0 < x" by simp
    from rnd_pos_bounds(1)[OF this] have "2 powi (expo x) \<le> rnd x" .
    moreover have "(0::rat) < 2 powi (expo x)" by simp
    ultimately show ?thesis by linarith
  qed
qed

lemma rnd_nonpos: "x \<le> 0 \<Longrightarrow> rnd x \<le> 0"
  using rnd_nonneg[of "- x"] by (simp add: rnd_minus)

lemma rnd_mono: "x \<le> y \<Longrightarrow> rnd x \<le> rnd y"
proof -
  assume h: "x \<le> y"
  consider "0 < x" | "x \<le> 0" "0 \<le> y" | "y < 0" by linarith
  then show ?thesis
  proof cases
    case 1 then show ?thesis using h by (rule rnd_mono_pos)
  next
    case 2
    then show ?thesis using rnd_nonpos[of x] rnd_nonneg[of y] by linarith
  next
    case 3
    then have "0 < - y" "- y \<le> - x" using h by simp_all
    then have "rnd (- y) \<le> rnd (- x)" by (rule rnd_mono_pos)
    then show ?thesis by (simp add: rnd_minus)
  qed
qed

lemma expo_unique:
  assumes "2 powi e \<le> \<bar>x\<bar>" "\<bar>x\<bar> < 2 powi (e + 1)"
  shows "expo x = e"
proof -
  have x0: "x \<noteq> 0"
  proof
    assume "x = 0"
    with assms(1) have "(2::rat) powi e \<le> 0" by simp
    moreover have "(0::rat) < 2 powi e" by simp
    ultimately show False by linarith
  qed
  note b = expo_bounds[OF x0]
  have "\<not> expo x < e"
  proof
    assume "expo x < e"
    then have "expo x + 1 \<le> e" by simp
    then have "(2::rat) powi (expo x + 1) \<le> 2 powi e" by (rule power_int_increasing) simp
    with b(2) assms(1) show False by linarith
  qed
  moreover have "\<not> e < expo x"
  proof
    assume "e < expo x"
    then have "e + 1 \<le> expo x" by simp
    then have "(2::rat) powi (e + 1) \<le> 2 powi (expo x)" by (rule power_int_increasing) simp
    with b(1) assms(2) show False by linarith
  qed
  ultimately show ?thesis by linarith
qed

lemma div_of_mult: "0 < q \<Longrightarrow> a = k * q \<Longrightarrow> a / q = (k::rat)"
  by simp

lemma rnd_idem_pos:
  assumes "0 < x"
  shows "rnd (rnd x) = rnd x"
proof -
  define e where "e = expo x"
  define q where "q = quantum x"
  define k where "k = round_half_even (x / q)"
  have x0: "x \<noteq> 0" using assms by simp
  have r: "rnd x = of_int k * q" using x0 by (simp add: rnd_def k_def q_def)
  have qpos: "0 < q" by (simp add: q_def quantum_pos)
  have lo: "2 powi e \<le> rnd x" and hi: "rnd x \<le> 2 powi (e + 1)"
    using rnd_pos_bounds[OF assms] by (simp_all add: e_def)
  have "(0::rat) < 2 powi e" by simp
  with lo have rpos: "0 < rnd x" by linarith
  show ?thesis
  proof (cases "rnd x = 2 powi (e + 1)")
    case True
    have "expo (rnd x) = e + 1"
    proof (rule expo_unique)
      show "2 powi (e + 1) \<le> \<bar>rnd x\<bar>" using True by simp
      have "(2::rat) powi (e + 1) < 2 powi (e + 1 + 1)" by (rule power_int_strict_increasing) simp_all
      then show "\<bar>rnd x\<bar> < 2 powi (e + 1 + 1)" using True by simp
    qed
    then have q': "quantum (rnd x) = 2 powi (e + 1 - 52)" by (simp add: quantum_def)
    define c where "c = e + 1 - 52"
    have c: "c + 52 = e + 1" by (simp add: c_def)
    have "(2::rat) powi (c + 52) = 2 powi c * 2 powi 52" by (rule power_int_add) simp
    then have "(2::rat) powi (e + 1) = 2 powi c * 2 powi 52" by (simp only: c)
    then have pw: "(2::rat) powi (e + 1) = of_int (2 ^ 52) * 2 powi c" by (simp add: mult.commute)
    have "rnd x = 2 powi (e + 1)" by (rule True)
    also have "\<dots> = of_int (2 ^ 52) * 2 powi c" by (rule pw)
    also have "\<dots> = of_int (2 ^ 52) * quantum (rnd x)" by (simp only: q' c_def)
    finally have "rnd x = of_int (2 ^ 52) * quantum (rnd x)" .
    with quantum_pos[of "rnd x"] have "rnd x / quantum (rnd x) = of_int (2 ^ 52)" by (rule div_of_mult)
    then have "round_half_even (rnd x / quantum (rnd x)) = 2 ^ 52" by (simp only: rhe_of_int)
    then have "rnd (rnd x) = of_int (2 ^ 52) * quantum (rnd x)" using rpos by (simp add: rnd_def)
    with \<open>rnd x = of_int (2 ^ 52) * quantum (rnd x)\<close> show ?thesis by simp
  next
    case False
    with hi have "rnd x < 2 powi (e + 1)" by simp
    with lo rpos have "expo (rnd x) = e" by (intro expo_unique) simp_all
    then have q': "quantum (rnd x) = q" by (simp add: quantum_def q_def e_def)
    have "rnd x / q = of_int k" using r qpos by simp
    then have "round_half_even (rnd x / q) = k" by (simp only: rhe_of_int)
    then show ?thesis using rpos q' r by (simp add: rnd_def)
  qed
qed

lemma rnd_idem: "rnd (rnd x) = rnd x"
proof -
  consider "0 < x" | "x = 0" | "x < 0" by linarith
  then show ?thesis
  proof cases
    case 1 then show ?thesis by (rule rnd_idem_pos)
  next
    case 2 then show ?thesis by (simp add: rnd_def)
  next
    case 3
    then have "rnd (rnd (- x)) = rnd (- x)" by (intro rnd_idem_pos) simp
    then show ?thesis by (simp add: rnd_minus)
  qed
qed

lemma rnd_zero [simp]: "rnd 0 = 0"
  by (simp add: rnd_def)

lemma rnd_pos: "0 < x \<Longrightarrow> 0 < rnd x"
proof -
  assume "0 < x"
  from rnd_pos_bounds(1)[OF this] have "2 powi (expo x) \<le> rnd x" .
  moreover have "(0::rat) < 2 powi (expo x)" by simp
  ultimately show ?thesis by linarith
qed

lemma rnd_eq_0_iff: "rnd x = 0 \<longleftrightarrow> x = 0"
proof
  assume h: "rnd x = 0"
  show "x = 0"
  proof (rule ccontr)
    assume "x \<noteq> 0"
    then consider "0 < x" | "0 < - x" by linarith
    then show False
    proof cases
      case 1 from rnd_pos[OF this] h show False by simp
    next
      case 2 from rnd_pos[OF this] h show False by (simp add: rnd_minus)
    qed
  qed
qed simp

lemma rnd_consts:
  "rnd 1 = 1" "rnd 100 = 100" "rnd 30 = 30"
  by code_simp+

lemma weights_100:
  "js_mul 100 (js_lit (20/100)) = 20"
  "js_mul 100 (js_lit (30/100)) = 30"
  "js_mul 100 (js_lit (15/100)) = 15"
  "js_mul 100 (js_lit (25/100)) = 25"
  "js_mul 100 (js_lit (6/10)) = 60"
  "js_mul 100 (js_lit (3/10)) = 30"
  "js_mul 100 (js_lit (1/10)) = 10"
  "js_mul 100 (js_lit (4/10)) = 40"
  by code_simp+

lemma sums:
  "rnd 20 = 20" "rnd 50 = 50" "rnd 70 = 70" "rnd 85 = 85" "rnd 90 = 90" "rnd 60 = 60" "rnd 55 = 55" "rnd 80 = 80"
  "rnd 45 = 45" "rnd 40 = 40" "rnd 25 = 25" "rnd 10 = 10"
  by code_simp+

lemma lit_pos:
  "0 < js_lit (20/100)" "0 < js_lit (30/100)" "0 < js_lit (15/100)" "0 < js_lit (25/100)"
  "0 < js_lit (6/10)" "0 < js_lit (3/10)" "0 < js_lit (1/10)" "0 < js_lit (4/10)" "0 < js_lit (15/10)"
  by (simp_all add: js_lit_def rnd_pos)

section \<open>Small counts are exact\<close>

lemma rnd_two_53: "rnd (2 ^ 53) = 2 ^ 53"
  by code_simp

lemma rnd_of_int_pos:
  assumes "0 < k" "k \<le> 2 ^ 53"
  shows "rnd (of_int k) = of_int k"
proof -
  define x :: rat where "x = of_int k"
  have xpos: "0 < x" using assms(1) by (simp add: x_def)
  then have x0: "x \<noteq> 0" by simp
  have xle: "x \<le> 2 ^ 53"
  proof -
    have "(of_int k :: rat) \<le> of_int (2 ^ 53)" using assms(2) by (simp only: of_int_le_iff)
    then show ?thesis by (simp add: x_def)
  qed
  have lo: "2 powi (expo x) \<le> x" using expo_bounds(1)[OF x0] xpos by simp
  have e53: "expo x \<le> 53"
  proof (rule ccontr)
    assume "\<not> expo x \<le> 53"
    then have "53 + 1 \<le> expo x" by simp
    then have "(2::rat) powi (53 + 1) \<le> 2 powi (expo x)" by (rule power_int_increasing) simp
    moreover have "(2::rat) ^ 53 < 2 powi (53 + 1)" by simp
    ultimately show False using lo xle by linarith
  qed
  show ?thesis
  proof (cases "expo x = 53")
    case True
    then have "(2::rat) ^ 53 \<le> x" using lo by simp
    with xle have "x = 2 ^ 53" by simp
    then show ?thesis using rnd_two_53 by (simp add: x_def)
  next
    case False
    with e53 have e52: "expo x \<le> 52" by simp
    define j where "j = nat (52 - expo x)"
    have "(2::rat) powi (- int j) = 1 / 2 powi (int j)" by (rule power_int_minus_divide)
    moreover have "expo x - 52 = - int j" using e52 by (simp add: j_def)
    ultimately have q: "quantum x = 1 / 2 ^ j" by (simp add: quantum_def)
    have "x / quantum x = x * 2 ^ j" by (simp add: q)
    also have "\<dots> = of_int (k * 2 ^ j)" by (simp add: x_def)
    finally have "x / quantum x = of_int (k * 2 ^ j)" .
    then have "round_half_even (x / quantum x) = k * 2 ^ j" by (simp only: rhe_of_int)
    then have "rnd x = of_int (k * 2 ^ j) * (1 / 2 ^ j)" using x0 by (simp add: rnd_def q)
    then show ?thesis by (simp add: x_def)
  qed
qed

lemma parseInt_count_exact: "n \<le> 2 ^ 53 \<Longrightarrow> parseInt_count n = of_nat n"
proof (cases "n = 0")
  case True then show ?thesis by (simp add: parseInt_count_def)
next
  case False
  assume "n \<le> 2 ^ 53"
  then have "int n \<le> 2 ^ 53" by (metis of_nat_le_iff of_nat_numeral of_nat_power)
  moreover have "0 < int n" using False by simp
  ultimately have "rnd (of_int (int n)) = of_int (int n)" by (rule rnd_of_int_pos[rotated])
  then show ?thesis by (simp add: parseInt_count_def)
qed

lemma rnd_of_nat_exact: "n \<le> 2 ^ 53 \<Longrightarrow> rnd (of_nat n) = of_nat n"
  using parseInt_count_exact[of n] by (simp add: parseInt_count_def)

section \<open>Every score lies between 0 and 100\<close>

lemma length_filter_le_imp:
  "(\<And>x. P x \<Longrightarrow> Q x) \<Longrightarrow> length (filter P xs) \<le> length (filter Q xs)"
  by (induction xs) auto

lemma parseInt_count_nonneg: "0 \<le> parseInt_count n"
  by (simp add: parseInt_count_def rnd_nonneg)

lemma parseInt_count_mono: "m \<le> n \<Longrightarrow> parseInt_count m \<le> parseInt_count n"
  by (simp add: parseInt_count_def rnd_mono)

lemma parseInt_count_eq_0: "parseInt_count n = 0 \<longleftrightarrow> n = 0"
  by (simp add: parseInt_count_def rnd_eq_0_iff)

lemma parseInt_count_pos: "parseInt_count n \<noteq> 0 \<Longrightarrow> 0 < parseInt_count n"
  using parseInt_count_nonneg[of n] by simp

lemma parseInt_count_double: "rnd (parseInt_count n) = parseInt_count n"
  by (simp add: parseInt_count_def rnd_idem)

lemma array_length_count: "array_length xs = parseInt_count (length xs)"
  by (simp add: array_length_def parseInt_count_def)

lemma rnd_le_100: "x \<le> 100 \<Longrightarrow> rnd x \<le> 100"
  using rnd_mono[of x 100] by (simp add: rnd_consts)

lemma rnd_in_bounds: "in_bounds x \<Longrightarrow> in_bounds (rnd x)"
  by (simp add: in_bounds_def rnd_nonneg rnd_le_100)

lemma percentage_bounds:
  assumes "0 \<le> a" "a \<le> b" "0 < b"
  shows "in_bounds (js_mul (js_div a b) 100)"
proof -
  have "0 \<le> a / b" "a / b \<le> 1" using assms by simp_all
  then have "0 \<le> rnd (a / b)" "rnd (a / b) \<le> 1"
    using rnd_nonneg[of "a / b"] rnd_mono[of "a / b" 1] by (simp_all add: rnd_consts)
  then have "in_bounds (rnd (a / b) * 100)" by (simp add: in_bounds_def)
  then show ?thesis unfolding js_mul_def js_div_def by (rule rnd_in_bounds)
qed

lemma Math_round_in_bounds: "in_bounds x \<Longrightarrow> in_bounds (Math_round x)"
proof -
  assume "in_bounds x"
  then have "0 \<le> x" "x \<le> 100" by (simp_all add: in_bounds_def)
  then have "0 \<le> \<lfloor>x + 1/2\<rfloor>" "\<lfloor>x + 1/2\<rfloor> \<le> 100"
    by (simp_all add: le_floor_iff floor_le_iff)
  then show ?thesis by (simp add: in_bounds_def Math_round_def)
qed

lemma percentage_score:
  "0 \<le> a \<Longrightarrow> a \<le> b \<Longrightarrow> 0 < b \<Longrightarrow> in_bounds (Math_round (js_mul (js_div a b) 100))"
  by (intro Math_round_in_bounds percentage_bounds)

subsection \<open>The components of the Standards score\<close>

lemma devices_managed_le:
  "device_countManagedByClientId d c \<le> device_countByClientId d c"
  unfolding device_countManagedByClientId_def device_countByClientId_def
  by (intro parseInt_count_mono length_filter_le_imp) simp

lemma deviceCoverage_in_bounds:
  assumes "0 \<le> m" "0 \<le> t"
  shows "in_bounds (score (calculateDeviceCoverage c t m))"
proof -
  have "0 \<le> (if 0 < t then js_mul (js_div m t) 100 else 0)"
  proof (cases "0 < t")
    case True
    then have "0 \<le> m / t" using assms by simp
    then have "0 \<le> rnd (m / t) * 100" using rnd_nonneg[of "m / t"] by simp
    then show ?thesis using True by (simp add: js_mul_def js_div_def rnd_nonneg)
  qed simp
  then show ?thesis by (simp add: calculateDeviceCoverage_def Let_def in_bounds_def Math_min_def)
qed

lemma immy_in_bounds: "in_bounds (score (calculateImmyCompliance d c))"
proof -
  define p where "p = control_countByStatus d c ''pass''"
  define f where "f = control_countByStatus d c ''fail''"
  define u where "u = control_countByStatus d c ''unknown''"
  define t where "t = js_add (js_add p f) u"
  have nn: "0 \<le> p" "0 \<le> f" "0 \<le> u"
    by (simp_all add: p_def f_def u_def control_countByStatus_def parseInt_count_nonneg)
  have pd: "rnd p = p" by (simp add: p_def control_countByStatus_def parseInt_count_double)
  have "rnd p \<le> rnd (p + f)" using nn by (intro rnd_mono) simp
  then have s1: "p \<le> js_add p f" by (simp add: pd js_add_def)
  have "rnd (js_add p f) \<le> rnd (js_add p f + u)" using nn by (intro rnd_mono) simp
  then have "js_add p f \<le> t" by (simp add: t_def js_add_def rnd_idem)
  with s1 have pt: "p \<le> t" by linarith
  show ?thesis
  proof (cases "t = 0")
    case True
    then show ?thesis
      by (simp add: calculateImmyCompliance_def Let_def in_bounds_def t_def p_def f_def u_def)
  next
    case False
    with pt nn have "0 < t" by linarith
    with pt nn have "in_bounds (Math_round (js_mul (js_div p t) 100))" by (intro percentage_score)
    then show ?thesis using False
      by (simp add: calculateImmyCompliance_def Let_def t_def p_def f_def u_def)
  qed
qed

lemma patch_in_bounds: "in_bounds (score (calculatePatchCompliance d c))"
proof -
  have le: "array_length (device_findByHealthStatus d c ''healthy'') \<le> device_countByClientId d c"
    unfolding array_length_count device_findByHealthStatus_def device_countByClientId_def
    by (intro parseInt_count_mono length_filter_le_imp) simp
  have nn: "0 \<le> array_length (device_findByHealthStatus d c ''healthy'')"
    by (simp add: array_length_count parseInt_count_nonneg)
  show ?thesis
  proof (cases "device_countByClientId d c = 0")
    case True then show ?thesis by (simp add: calculatePatchCompliance_def in_bounds_def)
  next
    case False
    then have "0 < device_countByClientId d c"
      by (simp add: device_countByClientId_def parseInt_count_pos)
    with le nn show ?thesis using False
      by (simp add: calculatePatchCompliance_def Let_def percentage_score)
  qed
qed

lemma edr_in_bounds: "in_bounds (score (calculateEDRHealth d c))"
proof (cases "device_countByClientId d c = 0")
  case True then show ?thesis by (simp add: calculateEDRHealth_def in_bounds_def)
next
  case False
  then have "0 < device_countByClientId d c"
    by (simp add: device_countByClientId_def parseInt_count_pos)
  moreover have "0 \<le> device_countManagedByClientId d c"
    by (simp add: device_countManagedByClientId_def parseInt_count_nonneg)
  ultimately show ?thesis using False devices_managed_le[of d c]
    by (simp add: calculateEDRHealth_def Let_def percentage_score)
qed

lemma getPassRate_in_bounds: "in_bounds (control_getPassRate d c t)"
proof -
  define query where "query = filter (\<lambda>r. control_client_id r = c \<and>
                    (case t of None \<Rightarrow> True | Some t \<Rightarrow> if t = [] then True else control_type r = t))
                    (controls d)"
  have le: "parseInt_count (length (filter (\<lambda>r. control_status r = ''pass'') query)) \<le> parseInt_count (length query)"
    by (intro parseInt_count_mono) simp
  show ?thesis
  proof (cases "parseInt_count (length query) = 0")
    case True
    then show ?thesis by (simp add: control_getPassRate_def Let_def in_bounds_def query_def)
  next
    case False
    then have "0 < parseInt_count (length query)" by (rule parseInt_count_pos)
    with le have "in_bounds (js_mul (js_div (parseInt_count (length (filter (\<lambda>r. control_status r = ''pass'') query)))
        (parseInt_count (length query))) 100)"
      by (intro percentage_bounds) (simp_all add: parseInt_count_nonneg)
    then show ?thesis using False by (simp add: control_getPassRate_def Let_def query_def)
  qed
qed

lemma m365_in_bounds: "in_bounds (score (calculateM365SecureScore d c))"
  using getPassRate_in_bounds[of d c "Some ''m365_secure_score''"]
  by (simp add: calculateM365SecureScore_def Let_def Math_round_in_bounds) (simp add: in_bounds_def)

subsection \<open>The weighted totals\<close>

lemma weighted_step:
  assumes "0 \<le> s" "s \<le> S" "in_bounds c" "0 < w" "js_mul 100 w = W" "rnd (S + W) = S + W"
  shows "0 \<le> js_add s (js_mul c w) \<and> js_add s (js_mul c w) \<le> S + W"
proof -
  have c: "0 \<le> c" "c \<le> 100" using assms(3) by (simp_all add: in_bounds_def)
  have "0 \<le> c * w" using c assms(4) by simp
  then have p0: "0 \<le> js_mul c w" by (simp add: js_mul_def rnd_nonneg)
  have "c * w \<le> 100 * w" using c assms(4) by simp
  then have "rnd (c * w) \<le> rnd (100 * w)" by (rule rnd_mono)
  then have p1: "js_mul c w \<le> W" using assms(5) by (simp add: js_mul_def)
  have "0 \<le> rnd (s + js_mul c w)" using assms(1) p0 by (intro rnd_nonneg) simp
  moreover have "rnd (s + js_mul c w) \<le> rnd (S + W)" using assms(2) p1 by (intro rnd_mono) simp
  ultimately show ?thesis using assms(6) by (simp add: js_add_def)
qed

lemma standards_total_in_bounds:
  assumes "in_bounds (score c1)" "in_bounds (score c2)" "in_bounds (score c3)"
          "in_bounds (score c4)" "in_bounds (score c5)"
  shows "in_bounds (weighted_total [(c1, js_lit (20/100)), (c2, js_lit (30/100)), (c3, js_lit (20/100)),
                                    (c4, js_lit (15/100)), (c5, js_lit (15/100))])"
proof -
  define s1 where "s1 = js_add 0 (js_mul (score c1) (js_lit (20/100)))"
  define s2 where "s2 = js_add s1 (js_mul (score c2) (js_lit (30/100)))"
  define s3 where "s3 = js_add s2 (js_mul (score c3) (js_lit (20/100)))"
  define s4 where "s4 = js_add s3 (js_mul (score c4) (js_lit (15/100)))"
  define s5 where "s5 = js_add s4 (js_mul (score c5) (js_lit (15/100)))"
  have b1: "0 \<le> s1 \<and> s1 \<le> 0 + 20" unfolding s1_def
    by (rule weighted_step[OF _ _ assms(1) lit_pos(1) weights_100(1)]) (simp_all add: sums)
  have b2: "0 \<le> s2 \<and> s2 \<le> 20 + 30" unfolding s2_def
    by (rule weighted_step[OF _ _ assms(2) lit_pos(2) weights_100(2)]) (use b1 in \<open>simp_all add: sums\<close>)
  have b3: "0 \<le> s3 \<and> s3 \<le> 50 + 20" unfolding s3_def
    by (rule weighted_step[OF _ _ assms(3) lit_pos(1) weights_100(1)]) (use b2 in \<open>simp_all add: sums\<close>)
  have b4: "0 \<le> s4 \<and> s4 \<le> 70 + 15" unfolding s4_def
    by (rule weighted_step[OF _ _ assms(4) lit_pos(3) weights_100(3)]) (use b3 in \<open>simp_all add: sums\<close>)
  have b5: "0 \<le> s5 \<and> s5 \<le> 85 + 15" unfolding s5_def
    by (rule weighted_step[OF _ _ assms(5) lit_pos(3) weights_100(3)]) (use b4 in \<open>simp_all add: sums rnd_consts\<close>)
  have "weighted_total [(c1, js_lit (20/100)), (c2, js_lit (30/100)), (c3, js_lit (20/100)),
                                    (c4, js_lit (15/100)), (c5, js_lit (15/100))] = s5"
    by (simp add: weighted_total_def s1_def s2_def s3_def s4_def s5_def)
  then show ?thesis using b5 by (simp add: in_bounds_def)
qed

lemma experience_total_in_bounds:
  assumes "in_bounds (score c1)" "in_bounds (score c2)" "in_bounds (score c3)"
          "in_bounds (score c4)" "in_bounds (score c5)"
  shows "in_bounds (weighted_total [(c1, js_lit (25/100)), (c2, js_lit (20/100)), (c3, js_lit (25/100)),
                                    (c4, js_lit (15/100)), (c5, js_lit (15/100))])"
proof -
  define s1 where "s1 = js_add 0 (js_mul (score c1) (js_lit (25/100)))"
  define s2 where "s2 = js_add s1 (js_mul (score c2) (js_lit (20/100)))"
  define s3 where "s3 = js_add s2 (js_mul (score c3) (js_lit (25/100)))"
  define s4 where "s4 = js_add s3 (js_mul (score c4) (js_lit (15/100)))"
  define s5 where "s5 = js_add s4 (js_mul (score c5) (js_lit (15/100)))"
  have b1: "0 \<le> s1 \<and> s1 \<le> 0 + 25" unfolding s1_def
    by (rule weighted_step[OF _ _ assms(1) lit_pos(4) weights_100(4)]) (simp_all add: sums)
  have b2: "0 \<le> s2 \<and> s2 \<le> 25 + 20" unfolding s2_def
    by (rule weighted_step[OF _ _ assms(2) lit_pos(1) weights_100(1)]) (use b1 in \<open>simp_all add: sums\<close>)
  have b3: "0 \<le> s3 \<and> s3 \<le> 45 + 25" unfolding s3_def
    by (rule weighted_step[OF _ _ assms(3) lit_pos(4) weights_100(4)]) (use b2 in \<open>simp_all add: sums\<close>)
  have b4: "0 \<le> s4 \<and> s4 \<le> 70 + 15" unfolding s4_def
    by (rule weighted_step[OF _ _ assms(4) lit_pos(3) weights_100(3)]) (use b3 in \<open>simp_all add: sums\<close>)
  have b5: "0 \<le> s5 \<and> s5 \<le> 85 + 15" unfolding s5_def
    by (rule weighted_step[OF _ _ assms(5) lit_pos(3) weights_100(3)]) (use b4 in \<open>simp_all add: sums rnd_consts\<close>)
  have "weighted_total [(c1, js_lit (25/100)), (c2, js_lit (20/100)), (c3, js_lit (25/100)),
                                    (c4, js_lit (15/100)), (c5, js_lit (15/100))] = s5"
    by (simp add: weighted_total_def s1_def s2_def s3_def s4_def s5_def)
  then show ?thesis using b5 by (simp add: in_bounds_def)
qed

lemma risk_total_in_bounds:
  assumes "in_bounds (score c1)" "in_bounds (score c2)" "in_bounds (score c3)" "in_bounds (score c4)"
  shows "in_bounds (weighted_total [(c1, js_lit (30/100)), (c2, js_lit (25/100)), (c3, js_lit (25/100)),
                                    (c4, js_lit (20/100))])"
proof -
  define s1 where "s1 = js_add 0 (js_mul (score c1) (js_lit (30/100)))"
  define s2 where "s2 = js_add s1 (js_mul (score c2) (js_lit (25/100)))"
  define s3 where "s3 = js_add s2 (js_mul (score c3) (js_lit (25/100)))"
  define s4 where "s4 = js_add s3 (js_mul (score c4) (js_lit (20/100)))"
  have b1: "0 \<le> s1 \<and> s1 \<le> 0 + 30" unfolding s1_def
    by (rule weighted_step[OF _ _ assms(1) lit_pos(2) weights_100(2)]) (simp_all add: rnd_consts)
  have b2: "0 \<le> s2 \<and> s2 \<le> 30 + 25" unfolding s2_def
    by (rule weighted_step[OF _ _ assms(2) lit_pos(4) weights_100(4)]) (use b1 in \<open>simp_all add: sums\<close>)
  have b3: "0 \<le> s3 \<and> s3 \<le> 55 + 25" unfolding s3_def
    by (rule weighted_step[OF _ _ assms(3) lit_pos(4) weights_100(4)]) (use b2 in \<open>simp_all add: sums\<close>)
  have b4: "0 \<le> s4 \<and> s4 \<le> 80 + 20" unfolding s4_def
    by (rule weighted_step[OF _ _ assms(4) lit_pos(1) weights_100(1)]) (use b3 in \<open>simp_all add: sums rnd_consts\<close>)
  have "weighted_total [(c1, js_lit (30/100)), (c2, js_lit (25/100)), (c3, js_lit (25/100)),
                                    (c4, js_lit (20/100))] = s4"
    by (simp add: weighted_total_def s1_def s2_def s3_def s4_def)
  then show ?thesis using b4 by (simp add: in_bounds_def)
qed

subsection \<open>The components of the Risk score\<close>

lemma scaled_le:
  assumes "in_bounds p" "0 < w" "js_mul 100 w = W"
  shows "0 \<le> js_mul p w \<and> js_mul p w \<le> W"
proof -
  have p: "0 \<le> p" "p \<le> 100" using assms(1) by (simp_all add: in_bounds_def)
  have "0 \<le> p * w" using p assms(2) by simp
  then have "0 \<le> js_mul p w" by (simp add: js_mul_def rnd_nonneg)
  moreover have "p * w \<le> 100 * w" using p assms(2) by simp
  then have "rnd (p * w) \<le> rnd (100 * w)" by (rule rnd_mono)
  then have "js_mul p w \<le> W" using assms(3) by (simp add: js_mul_def)
  ultimately show ?thesis by simp
qed

lemma js_mul_nonneg: "0 \<le> a \<Longrightarrow> 0 \<le> b \<Longrightarrow> 0 \<le> js_mul a b"
  by (simp add: js_mul_def rnd_nonneg)

lemma add_le:
  assumes "0 \<le> a" "a \<le> A" "0 \<le> b" "b \<le> B" "rnd (A + B) = A + B"
  shows "0 \<le> js_add a b \<and> js_add a b \<le> A + B"
proof -
  have "0 \<le> rnd (a + b)" using assms by (intro rnd_nonneg) simp
  moreover have "rnd (a + b) \<le> rnd (A + B)" using assms by (intro rnd_mono) simp
  ultimately show ?thesis using assms(5) by (simp add: js_add_def)
qed

lemma users_le:
  "user_countMFAEnabled d c \<le> user_countByClientId d c"
  "user_countByRiskLevel d c l \<le> user_countByClientId d c"
  unfolding user_countMFAEnabled_def user_countByClientId_def user_countByRiskLevel_def
  by (intro parseInt_count_mono length_filter_le_imp, simp)+

lemma identity_in_bounds: "in_bounds (score (calculateIdentityRisk d c))"
proof (cases "user_countByClientId d c = 0")
  case True then show ?thesis by (simp add: calculateIdentityRisk_def in_bounds_def)
next
  case False
  define t where "t = user_countByClientId d c"
  define mfa where "mfa = js_mul (js_div (user_countMFAEnabled d c) t) 100"
  define hi where "hi = js_mul (js_div (user_countByRiskLevel d c ''high'') t) 100"
  define me where "me = js_mul (js_div (user_countByRiskLevel d c ''medium'') t) 100"
  define r0 where "r0 = js_add 0 (js_mul (js_sub 100 mfa) (js_lit (6/10)))"
  define r1 where "r1 = js_add r0 (js_mul hi (js_lit (3/10)))"
  define r2 where "r2 = js_add r1 (js_mul me (js_lit (1/10)))"
  have tpos: "0 < t" using False by (simp add: t_def user_countByClientId_def parseInt_count_pos)
  have nn: "0 \<le> user_countMFAEnabled d c" "0 \<le> user_countByRiskLevel d c l" for l
    by (simp_all add: user_countMFAEnabled_def user_countByRiskLevel_def parseInt_count_nonneg)
  have mfa: "in_bounds mfa" unfolding mfa_def
    using users_le(1)[of d c] nn tpos by (intro percentage_bounds) (simp_all add: t_def)
  have hi: "in_bounds hi" unfolding hi_def
    using users_le(2)[of d c "''high''"] nn tpos by (intro percentage_bounds) (simp_all add: t_def)
  have me: "in_bounds me" unfolding me_def
    using users_le(2)[of d c "''medium''"] nn tpos by (intro percentage_bounds) (simp_all add: t_def)
  have "in_bounds (100 - mfa)" using mfa by (simp add: in_bounds_def)
  then have "in_bounds (js_sub 100 mfa)" unfolding js_sub_def by (rule rnd_in_bounds)
  from scaled_le[OF this lit_pos(5) weights_100(5)]
  have a: "0 \<le> js_mul (js_sub 100 mfa) (js_lit (6/10))" "js_mul (js_sub 100 mfa) (js_lit (6/10)) \<le> 60"
    by simp_all
  have b0: "0 \<le> r0 \<and> r0 \<le> 0 + 60" unfolding r0_def
    using a by (intro add_le) (simp_all add: sums)
  from scaled_le[OF hi lit_pos(6) weights_100(6)]
  have b: "0 \<le> js_mul hi (js_lit (3/10))" "js_mul hi (js_lit (3/10)) \<le> 30" by simp_all
  have b1: "0 \<le> r1 \<and> r1 \<le> 60 + 30" unfolding r1_def
    using b b0 by (intro add_le) (simp_all add: sums)
  from scaled_le[OF me lit_pos(7) weights_100(7)]
  have c: "0 \<le> js_mul me (js_lit (1/10))" "js_mul me (js_lit (1/10)) \<le> 10" by simp_all
  have b2: "0 \<le> r2 \<and> r2 \<le> 90 + 10" unfolding r2_def
    using c b1 by (intro add_le) (simp_all add: sums rnd_consts)
  then have "in_bounds r2" by (simp add: in_bounds_def)
  then have "in_bounds (Math_round r2)" by (rule Math_round_in_bounds)
  then show ?thesis using False
    by (simp add: calculateIdentityRisk_def Let_def r2_def r1_def r0_def me_def hi_def mfa_def t_def)
qed

lemma email_in_bounds: "in_bounds (score (calculateEmailRisk d c))"
  by (simp add: calculateEmailRisk_def Let_def in_bounds_def)

lemma endpoint_in_bounds: "in_bounds (score (calculateEndpointRisk d c))"
proof (cases "device_countByClientId d c = 0")
  case True then show ?thesis by (simp add: calculateEndpointRisk_def in_bounds_def)
next
  case False
  define t where "t = device_countByClientId d c"
  define m where "m = device_countManagedByClientId d c"
  define cr where "cr = array_length (device_findByHealthStatus d c ''critical'')"
  define n where "n = array_length (filter (\<lambda>r. risk_status r = ''open'') (risk_findByType d c ''endpoint''))"
  define un where "un = js_mul (js_div (js_sub t m) t) 100"
  define cp where "cp = js_mul (js_div cr t) 100"
  define r0 where "r0 = js_add 0 (js_mul un (js_lit (4/10)))"
  define r1 where "r1 = js_add r0 (js_mul cp (js_lit (3/10)))"
  define r2 where "r2 = js_add r1 (Math_min (js_mul n 5) 30)"
  have tpos: "0 < t" using False by (simp add: t_def device_countByClientId_def parseInt_count_pos)
  have td: "rnd t = t" by (simp add: t_def device_countByClientId_def parseInt_count_double)
  have m: "0 \<le> m" "m \<le> t"
    using devices_managed_le[of d c]
    by (simp_all add: m_def t_def device_countManagedByClientId_def parseInt_count_nonneg)
  have "0 \<le> rnd (t - m)" using m by (intro rnd_nonneg) simp
  moreover have "rnd (t - m) \<le> rnd t" using m by (intro rnd_mono) simp
  ultimately have sub: "0 \<le> js_sub t m" "js_sub t m \<le> t" by (simp_all add: js_sub_def td)
  have un: "in_bounds un" unfolding un_def using sub tpos by (intro percentage_bounds)
  have cr: "0 \<le> cr" "cr \<le> t"
    unfolding cr_def t_def array_length_count device_findByHealthStatus_def device_countByClientId_def
    by (simp add: parseInt_count_nonneg, intro parseInt_count_mono length_filter_le_imp, simp)
  have cp: "in_bounds cp" unfolding cp_def using cr tpos by (intro percentage_bounds)
  from scaled_le[OF un lit_pos(8) weights_100(8)]
  have a: "0 \<le> js_mul un (js_lit (4/10))" "js_mul un (js_lit (4/10)) \<le> 40" by simp_all
  have b0: "0 \<le> r0 \<and> r0 \<le> 0 + 40" unfolding r0_def using a by (intro add_le) (simp_all add: sums)
  from scaled_le[OF cp lit_pos(6) weights_100(6)]
  have b: "0 \<le> js_mul cp (js_lit (3/10))" "js_mul cp (js_lit (3/10)) \<le> 30" by simp_all
  have b1: "0 \<le> r1 \<and> r1 \<le> 40 + 30" unfolding r1_def using b b0 by (intro add_le) (simp_all add: sums)
  have "0 \<le> n" by (simp add: n_def array_length_count parseInt_count_nonneg)
  then have "0 \<le> js_mul n 5" by (intro js_mul_nonneg) simp_all
  then have mn: "0 \<le> Math_min (js_mul n 5) 30" "Math_min (js_mul n 5) 30 \<le> 30"
    by (simp_all add: Math_min_def)
  have b2: "0 \<le> r2 \<and> r2 \<le> 70 + 30" unfolding r2_def
    using mn b1 by (intro add_le) (simp_all add: rnd_consts)
  then have "in_bounds r2" by (simp add: in_bounds_def)
  then have "in_bounds (Math_round r2)" by (rule Math_round_in_bounds)
  then show ?thesis using False
    by (simp add: calculateEndpointRisk_def Let_def r2_def r1_def r0_def cp_def un_def n_def cr_def m_def t_def)
qed

lemma business_in_bounds: "in_bounds (score (calculateBusinessModifier c))"
  by (simp add: calculateBusinessModifier_def in_bounds_def)

subsection \<open>The components of the Experience score\<close>

lemma trend_in_bounds: "in_bounds (score (calculateTicketsPerUserTrend d q c))"
  by (simp add: calculateTicketsPerUserTrend_def Let_def trendScore_def in_bounds_def)

lemma penalty_in_bounds:
  assumes "0 \<le> x"
  shows "in_bounds (Math_round (Math_max 0 (js_sub 100 x)))"
proof -
  have "rnd (100 - x) \<le> 100" using assms by (intro rnd_le_100) simp
  then have "in_bounds (Math_max 0 (js_sub 100 x))"
    by (simp add: in_bounds_def Math_max_def js_sub_def)
  then show ?thesis by (rule Math_round_in_bounds)
qed

lemma repeat_in_bounds: "in_bounds (score (calculateRepeatIssueRate d q c))"
proof -
  define ts where "ts = ticket_findByDateRange d c (currentQuarterStart q) (currentQuarterEnd q)"
  define keys where "keys = remdups (map category_of ts)"
  define rc where "rc = array_length (filter (\<lambda>k. 2 < count_list (map category_of ts) k) keys)"
  define tc where "tc = array_length keys"
  have rc: "0 \<le> rc" "rc \<le> tc"
    unfolding rc_def tc_def array_length_count
    by (simp add: parseInt_count_nonneg, intro parseInt_count_mono, simp)
  show ?thesis
  proof (cases "array_length ts = 0")
    case True
    then show ?thesis by (simp add: calculateRepeatIssueRate_def in_bounds_def ts_def)
  next
    case nonempty: False
    show ?thesis
    proof (cases "0 < tc")
      case True
      with rc have "in_bounds (js_mul (js_div rc tc) 100)" by (intro percentage_bounds)
      then have "0 \<le> js_mul (js_div rc tc) 100" by (simp add: in_bounds_def)
      from penalty_in_bounds[OF this] show ?thesis using True nonempty
        unfolding calculateRepeatIssueRate_def Let_def rc_def tc_def keys_def ts_def by simp
    next
      case False
      from penalty_in_bounds[of 0] show ?thesis using False nonempty
        unfolding calculateRepeatIssueRate_def Let_def rc_def tc_def keys_def ts_def by simp
    qed
  qed
qed

lemma sla_in_bounds: "in_bounds (score (calculateSLAPerformance d q c))"
proof -
  define t where "t = array_length (ticket_findByDateRange d c (currentQuarterStart q) (currentQuarterEnd q))"
  define s where "s = ticket_countSLAMet d c (currentQuarterStart q) (currentQuarterEnd q)"
  have s: "0 \<le> s" "s \<le> t"
    unfolding s_def t_def array_length_count ticket_countSLAMet_def ticket_findByDateRange_def
    by (simp add: parseInt_count_nonneg, intro parseInt_count_mono length_filter_le_imp, simp)
  show ?thesis
  proof (cases "t = 0")
    case True then show ?thesis by (simp add: calculateSLAPerformance_def in_bounds_def t_def)
  next
    case False
    then have "0 < t" by (simp add: t_def array_length_count parseInt_count_pos)
    with s have "in_bounds (Math_round (js_mul (js_div s t) 100))" by (intro percentage_score)
    then show ?thesis using False by (simp add: calculateSLAPerformance_def Let_def t_def s_def)
  qed
qed

lemma reopen_in_bounds: "in_bounds (score (calculateReopenRate d q c))"
proof -
  define t where "t = array_length (ticket_findByDateRange d c (currentQuarterStart q) (currentQuarterEnd q))"
  define s where "s = ticket_countReopened d c (currentQuarterStart q) (currentQuarterEnd q)"
  have s: "0 \<le> s" "s \<le> t"
    unfolding s_def t_def array_length_count ticket_countReopened_def ticket_findByDateRange_def
    by (simp add: parseInt_count_nonneg, intro parseInt_count_mono length_filter_le_imp, simp)
  show ?thesis
  proof (cases "t = 0")
    case True then show ?thesis by (simp add: calculateReopenRate_def in_bounds_def t_def)
  next
    case False
    then have "0 < t" by (simp add: t_def array_length_count parseInt_count_pos)
    with s have "in_bounds (js_mul (js_div s t) 100)" by (intro percentage_bounds)
    have "0 \<le> js_mul (js_mul (js_div s t) 100) 2"
    proof (rule js_mul_nonneg)
      show "0 \<le> js_mul (js_div s t) 100" using \<open>in_bounds (js_mul (js_div s t) 100)\<close> by (simp add: in_bounds_def)
    qed simp
    from penalty_in_bounds[OF this] show ?thesis using False
      by (simp add: calculateReopenRate_def Let_def t_def s_def)
  qed
qed

lemma afterHours_in_bounds: "in_bounds (score (calculateAfterHoursIncidents d q c))"
proof -
  define ts where "ts = ticket_findByDateRange d c (currentQuarterStart q) (currentQuarterEnd q)"
  define t where "t = array_length ts"
  define s where "s = array_length (filter after_hours ts)"
  have s: "0 \<le> s" "s \<le> t"
    unfolding s_def t_def array_length_count
    by (simp add: parseInt_count_nonneg, intro parseInt_count_mono, simp)
  show ?thesis
  proof (cases "t = 0")
    case True then show ?thesis by (simp add: calculateAfterHoursIncidents_def in_bounds_def t_def ts_def)
  next
    case False
    then have "0 < t" by (simp add: t_def array_length_count parseInt_count_pos)
    with s have "in_bounds (js_mul (js_div s t) 100)" by (intro percentage_bounds)
    have "0 \<le> js_mul (js_mul (js_div s t) 100) (js_lit (15/10))"
    proof (rule js_mul_nonneg)
      show "0 \<le> js_mul (js_div s t) 100" using \<open>in_bounds (js_mul (js_div s t) 100)\<close> by (simp add: in_bounds_def)
      show "0 \<le> js_lit (15/10)" using lit_pos(9) by simp
    qed
    from penalty_in_bounds[OF this] show ?thesis using False
      by (simp add: calculateAfterHoursIncidents_def Let_def t_def s_def ts_def)
  qed
qed

text \<open>
  C9. Whenever a calculator returns a score, the score lies in \<open>[0, 100]\<close>, and so
  does the score of every component of its breakdown.
\<close>

theorem C9_scores_within_bounds:
  "within_bounds (calculateStandardsScore d c)
   \<and> within_bounds (calculateRiskScore d c)
   \<and> within_bounds (calculateExperienceScore d q c)"
proof (intro conjI)
  have nn: "0 \<le> device_countManagedByClientId d c" "0 \<le> device_countByClientId d c"
    by (simp_all add: device_countManagedByClientId_def device_countByClientId_def parseInt_count_nonneg)
  note st = deviceCoverage_in_bounds[OF nn, of c] immy_in_bounds[of d c] patch_in_bounds[of d c]
    edr_in_bounds[of d c] m365_in_bounds[of d c]
  show "within_bounds (calculateStandardsScore d c)"
    using st Math_round_in_bounds[OF standards_total_in_bounds[OF st]]
    by (simp add: within_bounds_def calculateStandardsScore_def Let_def)
  note ri = identity_in_bounds[of d c] email_in_bounds[of d c] endpoint_in_bounds[of d c]
    business_in_bounds[of c]
  show "within_bounds (calculateRiskScore d c)"
    using ri Math_round_in_bounds[OF risk_total_in_bounds[OF ri]]
    by (simp add: within_bounds_def calculateRiskScore_def Let_def)
  note ex = trend_in_bounds[of d q c] repeat_in_bounds[of d q c] sla_in_bounds[of d q c]
    reopen_in_bounds[of d q c] afterHours_in_bounds[of d q c]
  show "within_bounds (calculateExperienceScore d q c)"
    using ex Math_round_in_bounds[OF experience_total_in_bounds[OF ex]]
    by (simp add: within_bounds_def calculateExperienceScore_def Let_def)
qed

lemma scenario_result:
  "calculateStandardsScore scenario_db 1 =
     \<lparr>res_score = Some 83, error = None,
      breakdown =
        [(''device_coverage'',
          \<lparr>score = 90, risk_level = None,
           evidence = Measured [(''total_devices'', 50), (''managed_devices'', 45),
                                (''coverage_percentage'', 90)]\<rparr>, ''20%''),
         (''immy_compliance'',
          \<lparr>score = 80, risk_level = None,
           evidence = Measured [(''total_controls'', 50), (''passed_controls'', 40),
                                (''compliance_percentage'', 80)]\<rparr>, ''30%''),
         (''patch_compliance'',
          \<lparr>score = 84, risk_level = None,
           evidence = Measured [(''total_devices'', 50), (''healthy_devices'', 42),
                                (''patch_percentage'', 84)]\<rparr>, ''20%''),
         (''edr_health'',
          \<lparr>score = 90, risk_level = None,
           evidence = Measured [(''total_devices'', 50), (''devices_with_edr'', 45),
                                (''edr_coverage'', 90)]\<rparr>, ''15%''),
         (''m365_secure_score'',
          \<lparr>score = 72, risk_level = None,
           evidence = Measured [(''secure_score_percentage'', 72)]\<rparr>, ''15%'')]\<rparr>"
  by code_simp

lemma scenario_counts:
  "length (filter (\<lambda>r. device_client_id r = 1) (devices scenario_db)) = 50"
  "length (filter (\<lambda>r. device_client_id r = 1 \<and> managed r) (devices scenario_db)) = 45"
  "length (filter (\<lambda>r. device_client_id r = 1 \<and> health_status r = ''healthy'') (devices scenario_db)) = 42"
  "length (filter (\<lambda>r. control_client_id r = 1) (controls scenario_db)) = 50"
  "length (filter (\<lambda>r. control_client_id r = 1 \<and> control_status r = ''pass'') (controls scenario_db)) = 40"
  "length (filter (\<lambda>r. control_client_id r = 1 \<and> control_status r = ''fail'') (controls scenario_db))
     + length (filter (\<lambda>r. control_client_id r = 1 \<and> control_status r = ''unknown'') (controls scenario_db)) = 10"
  "control_getPassRate scenario_db 1 (Some ''m365_secure_score'') = 72"
  by code_simp+

lemma example_scores:
  "res_score (calculateRiskScore scenario_db 1) = Some 27"
  "res_score (calculateExperienceScore trend_db q1 1) = Some 74"
  by code_simp+

theorem C9_scores_within_bounds_witness:
  "within_bounds (calculateStandardsScore scenario_db 1)
   \<and> within_bounds (calculateRiskScore scenario_db 1)
   \<and> within_bounds (calculateExperienceScore trend_db q1 1)
   \<and> res_score (calculateStandardsScore scenario_db 1) = Some 83
   \<and> res_score (calculateRiskScore scenario_db 1) = Some 27
   \<and> res_score (calculateExperienceScore trend_db q1 1) = Some 74"
  using C9_scores_within_bounds[of scenario_db 1 q1] C9_scores_within_bounds[of trend_db 1 q1] example_scores
  by (simp add: scenario_result)

section \<open>The Standards score without devices or controls\<close>

lemma count_zero [simp]: "parseInt_count 0 = 0"
  by (simp add: parseInt_count_def)

lemma js_add_zero [simp]: "js_add 0 0 = 0"
  by (simp add: js_add_def)

text \<open>
  C1. A client without device rows gets exactly the result with a null score, the error
  \<open>Insufficient data: no devices found\<close> and an empty breakdown, whatever else is
  stored for it. A client with a device gets a numeric score and all five components;
  with no control of status pass, fail or unknown the baseline component scores 0, and
  with no secure-score control the secure-score component scores 0.
\<close>

theorem C1_standards_zero_device_policy:
  "(filter (\<lambda>r. device_client_id r = c) (devices d) = [] \<longrightarrow>
      calculateStandardsScore d c =
        \<lparr>res_score = None, error = Some ''Insufficient data: no devices found'', breakdown = []\<rparr>)
   \<and> (filter (\<lambda>r. device_client_id r = c) (devices d) \<noteq> [] \<longrightarrow>
        res_score (calculateStandardsScore d c) \<noteq> None
        \<and> error (calculateStandardsScore d c) = None
        \<and> map fst (breakdown (calculateStandardsScore d c)) =
            [''device_coverage'', ''immy_compliance'', ''patch_compliance'', ''edr_health'',
             ''m365_secure_score'']
        \<and> ((\<forall>r \<in> set (controls d). control_client_id r = c \<longrightarrow>
               control_status r \<notin> {''pass'', ''fail'', ''unknown''}) \<longrightarrow>
             (''immy_compliance'',
              \<lparr>score = 0, risk_level = None,
               evidence = Description ''No Immy.Bot compliance data available''\<rparr>, ''30%'')
               \<in> set (breakdown (calculateStandardsScore d c)))
        \<and> ((\<forall>r \<in> set (controls d). control_client_id r = c \<longrightarrow>
               control_type r \<noteq> ''m365_secure_score'') \<longrightarrow>
             (''m365_secure_score'',
              \<lparr>score = 0, risk_level = None,
               evidence = Description ''No Microsoft 365 Secure Score data available''\<rparr>, ''15%'')
               \<in> set (breakdown (calculateStandardsScore d c))))"
proof (intro conjI impI)
  assume "filter (\<lambda>r. device_client_id r = c) (devices d) = []"
  then show "calculateStandardsScore d c =
        \<lparr>res_score = None, error = Some ''Insufficient data: no devices found'', breakdown = []\<rparr>"
    by (simp add: calculateStandardsScore_def device_countByClientId_def)
next
  assume ne: "filter (\<lambda>r. device_client_id r = c) (devices d) \<noteq> []"
  then have t: "device_countByClientId d c \<noteq> 0"
    by (simp add: device_countByClientId_def parseInt_count_eq_0)
  then show "res_score (calculateStandardsScore d c) \<noteq> None"
    and "error (calculateStandardsScore d c) = None"
    and "map fst (breakdown (calculateStandardsScore d c)) =
            [''device_coverage'', ''immy_compliance'', ''patch_compliance'', ''edr_health'',
             ''m365_secure_score'']"
    by (simp_all add: calculateStandardsScore_def Let_def)
  {
    assume "\<forall>r \<in> set (controls d). control_client_id r = c \<longrightarrow>
               control_status r \<notin> {''pass'', ''fail'', ''unknown''}"
    then have "\<And>s. s \<in> {''pass'', ''fail'', ''unknown''} \<Longrightarrow>
        filter (\<lambda>r. control_client_id r = c \<and> control_status r = s) (controls d) = []"
      by (auto simp: filter_empty_conv)
    then have "control_countByStatus d c ''pass'' = 0" "control_countByStatus d c ''fail'' = 0"
      "control_countByStatus d c ''unknown'' = 0"
      by (simp_all add: control_countByStatus_def)
    then have "calculateImmyCompliance d c = \<lparr>score = 0, risk_level = None,
               evidence = Description ''No Immy.Bot compliance data available''\<rparr>"
      by (simp add: calculateImmyCompliance_def)
    then show "(''immy_compliance'',
              \<lparr>score = 0, risk_level = None,
               evidence = Description ''No Immy.Bot compliance data available''\<rparr>, ''30%'')
               \<in> set (breakdown (calculateStandardsScore d c))"
      using t by (simp add: calculateStandardsScore_def Let_def)
  }
  {
    assume "\<forall>r \<in> set (controls d). control_client_id r = c \<longrightarrow> control_type r \<noteq> ''m365_secure_score''"
    then have "filter (\<lambda>r. control_client_id r = c \<and> control_type r = ''m365_secure_score'') (controls d) = []"
      by (auto simp: filter_empty_conv)
    then have "control_getPassRate d c (Some ''m365_secure_score'') = 0"
      by (simp add: control_getPassRate_def)
    then have "calculateM365SecureScore d c = \<lparr>score = 0, risk_level = None,
               evidence = Description ''No Microsoft 365 Secure Score data available''\<rparr>"
      by (simp add: calculateM365SecureScore_def)
    then show "(''m365_secure_score'',
              \<lparr>score = 0, risk_level = None,
               evidence = Description ''No Microsoft 365 Secure Score data available''\<rparr>, ''15%'')
               \<in> set (breakdown (calculateStandardsScore d c))"
      using t by (simp add: calculateStandardsScore_def Let_def)
  }
qed

lemma no_device_examples:
  "filter (\<lambda>r. device_client_id r = 1) (devices no_device_db) = []"
  "filter (\<lambda>r. device_client_id r = 1) (devices one_device_db) \<noteq> []"
  "controls one_device_db = []"
  "res_score (calculateStandardsScore one_device_db 1) = Some 55"
  by code_simp+

theorem C1_standards_zero_device_policy_witness:
  "calculateStandardsScore no_device_db 1 =
        \<lparr>res_score = None, error = Some ''Insufficient data: no devices found'', breakdown = []\<rparr>
   \<and> res_score (calculateStandardsScore one_device_db 1) = Some 55
   \<and> (''immy_compliance'',
              \<lparr>score = 0, risk_level = None,
               evidence = Description ''No Immy.Bot compliance data available''\<rparr>, ''30%'')
               \<in> set (breakdown (calculateStandardsScore one_device_db 1))
   \<and> (''m365_secure_score'',
              \<lparr>score = 0, risk_level = None,
               evidence = Description ''No Microsoft 365 Secure Score data available''\<rparr>, ''15%'')
               \<in> set (breakdown (calculateStandardsScore one_device_db 1))"
  using C1_standards_zero_device_policy[of 1 no_device_db]
        C1_standards_zero_device_policy[of 1 one_device_db] no_device_examples
  by simp

section \<open>The Risk score without users or devices\<close>

text \<open>
  C4. Without users the identity component is score 50, level Medium, with the
  description that no user data was available; without devices the endpoint component
  likewise. \<open>calculateRiskScore\<close> returns a numeric score in every case, with these
  components in its breakdown.
\<close>

theorem C4_risk_neutral_midpoint:
  "(filter (\<lambda>r. user_client_id r = c) (users d) = [] \<longrightarrow>
      calculateIdentityRisk d c =
        \<lparr>score = 50, risk_level = Some ''Medium'',
         evidence = Description ''No user data available for identity risk assessment''\<rparr>)
   \<and> (filter (\<lambda>r. device_client_id r = c) (devices d) = [] \<longrightarrow>
      calculateEndpointRisk d c =
        \<lparr>score = 50, risk_level = Some ''Medium'',
         evidence = Description ''No device data available for endpoint risk assessment''\<rparr>)
   \<and> res_score (calculateRiskScore d c) \<noteq> None
   \<and> error (calculateRiskScore d c) = None
   \<and> map (\<lambda>(name, comp, weight). (name, comp)) (breakdown (calculateRiskScore d c)) =
        [(''identity_risk'', calculateIdentityRisk d c), (''email_risk'', calculateEmailRisk d c),
         (''endpoint_risk'', calculateEndpointRisk d c), (''business_modifier'', calculateBusinessModifier c)]"
  by (simp add: calculateIdentityRisk_def calculateEndpointRisk_def calculateRiskScore_def
        user_countByClientId_def device_countByClientId_def Let_def)


lemma empty_db_examples:
  "filter (\<lambda>r. user_client_id r = 1) (users empty_db) = []"
  "filter (\<lambda>r. device_client_id r = 1) (devices empty_db) = []"
  "res_score (calculateRiskScore empty_db 1) = Some 38"
  by code_simp+

theorem C4_risk_neutral_midpoint_witness:
  "calculateIdentityRisk empty_db 1 =
        \<lparr>score = 50, risk_level = Some ''Medium'',
         evidence = Description ''No user data available for identity risk assessment''\<rparr>
   \<and> calculateEndpointRisk empty_db 1 =
        \<lparr>score = 50, risk_level = Some ''Medium'',
         evidence = Description ''No device data available for endpoint risk assessment''\<rparr>
   \<and> res_score (calculateRiskScore empty_db 1) = Some 38"
  using C4_risk_neutral_midpoint[of 1 empty_db] empty_db_examples by simp

section \<open>Totals are rounded weighted sums\<close>


















section \<open>The tickets-per-user trend\<close>

lemma trend_db_examples:
  "filter (\<lambda>r. user_client_id r = 1) (users trend_db) \<noteq> []"
  "trendPercentage trend_db q1 1 = - 20"
  "score (calculateTicketsPerUserTrend trend_db q1 1) = 75"
  by code_simp+

text \<open>
  C3, as stated, fails: with one user, four tickets this quarter and five in the
  previous one the change is exactly -20 percent; the specification's step function
  gives 90 and the code gives 75.
\<close>

theorem C3_counterexample_exactly_minus_20_scores_75:
  "length (ticket_findByDateRange trend_db 1 (currentQuarterStart q1) (currentQuarterEnd q1)) = 4
   \<and> length (ticket_findByDateRange trend_db 1 (previousQuarterStart q1) (previousQuarterEnd q1)) = 5
   \<and> length (filter (\<lambda>r. user_client_id r = 1) (users trend_db)) = 1
   \<and> trendPercentage trend_db q1 1 = - 20
   \<and> spec_trend_step (- 20) = 90
   \<and> score (calculateTicketsPerUserTrend trend_db q1 1) = 75"
  by code_simp

text \<open>
  C3, amended. For a client with a user the component score is the specification's step
  function of the percent change that the code computes (0 when the previous quarter
  has no ticket), except at its two closed boundaries: exactly -20 gives 75 and exactly
  -10 gives 60, since the code compares with \<open><\<close>.
\<close>

theorem C3_trend_step_function:
  "filter (\<lambda>r. user_client_id r = c) (users d) \<noteq> [] \<Longrightarrow>
   score (calculateTicketsPerUserTrend d q c) =
     (let t = trendPercentage d q c
      in if t = - 20 then 75 else if t = - 10 then 60 else spec_trend_step t)"
proof -
  assume "filter (\<lambda>r. user_client_id r = c) (users d) \<noteq> []"
  then have "user_countByClientId d c \<noteq> 0"
    by (simp add: user_countByClientId_def parseInt_count_eq_0)
  then have "score (calculateTicketsPerUserTrend d q c) = trendScore (trendPercentage d q c)"
    by (simp add: calculateTicketsPerUserTrend_def Let_def)
  then show ?thesis
    by (simp add: trendScore_def spec_trend_step_def Let_def)
qed

theorem C3_trend_step_function_witness:
  "filter (\<lambda>r. user_client_id r = 1) (users trend_db) \<noteq> []
   \<and> score (calculateTicketsPerUserTrend trend_db q1 1) = 75"
  using C3_trend_step_function[of 1 trend_db q1] trend_db_examples by simp

section \<open>The Standards scenario\<close>

text \<open>
  C8, as stated, fails: a client with 50 devices, 45 of them managed and 42 healthy,
  50 controls of which 40 pass, and a secure-score pass rate of 72 gets EDR coverage 90
  and total 83. The EDR component counts the managed devices, so it cannot be 96 while
  device coverage is 90.
\<close>

theorem C8_counterexample_edr_is_the_managed_share:
  "length (filter (\<lambda>r. device_client_id r = 1) (devices scenario_db)) = 50
   \<and> length (filter (\<lambda>r. device_client_id r = 1 \<and> managed r) (devices scenario_db)) = 45
   \<and> length (filter (\<lambda>r. device_client_id r = 1 \<and> health_status r = ''healthy'') (devices scenario_db)) = 42
   \<and> length (filter (\<lambda>r. control_client_id r = 1) (controls scenario_db)) = 50
   \<and> length (filter (\<lambda>r. control_client_id r = 1 \<and> control_status r = ''pass'') (controls scenario_db)) = 40
   \<and> control_getPassRate scenario_db 1 (Some ''m365_secure_score'') = 72
   \<and> map (\<lambda>(name, comp, weight). (name, score comp)) (breakdown (calculateStandardsScore scenario_db 1)) =
        [(''device_coverage'', 90), (''immy_compliance'', 80), (''patch_compliance'', 84),
         (''edr_health'', 90), (''m365_secure_score'', 72)]
   \<and> res_score (calculateStandardsScore scenario_db 1) = Some 83"
  using scenario_counts by (simp add: scenario_result)

lemma scenario_arithmetic:
  "js_mul (js_div 45 50) 100 = 90"
  "js_mul (js_div 40 50) 100 = 80"
  "js_mul (js_div 42 50) 100 = 84"
  "Math_round 90 = 90" "Math_round 80 = 80" "Math_round 84 = 84" "Math_round 72 = 72"
  "Math_min 90 100 = 90"
  "Math_round (js_add (js_add (js_add (js_add (js_add 0 (js_mul 90 (js_lit (1/5))))
       (js_mul 80 (js_lit (3/10)))) (js_mul 84 (js_lit (1/5)))) (js_mul 90 (js_lit (3/20))))
       (js_mul 72 (js_lit (3/20)))) = 83"
  by code_simp+

text \<open>
  C8, amended. Every client with 50 devices, 45 managed and 42 healthy, 40 passing
  controls and 10 failing or unknown ones, and a secure-score pass rate of 72 gets the
  component scores 90, 80, 84, 90 and 72 and the total 83.
\<close>

theorem C8_standards_scenario:
  assumes "length (filter (\<lambda>r. device_client_id r = c) (devices d)) = 50"
      and "length (filter (\<lambda>r. device_client_id r = c \<and> managed r) (devices d)) = 45"
      and "length (filter (\<lambda>r. device_client_id r = c \<and> health_status r = ''healthy'') (devices d)) = 42"
      and "length (filter (\<lambda>r. control_client_id r = c \<and> control_status r = ''pass'') (controls d)) = 40"
      and "length (filter (\<lambda>r. control_client_id r = c \<and> control_status r = ''fail'') (controls d))
           + length (filter (\<lambda>r. control_client_id r = c \<and> control_status r = ''unknown'') (controls d)) = 10"
      and "control_getPassRate d c (Some ''m365_secure_score'') = 72"
  shows "map (\<lambda>(name, comp, weight). (name, score comp)) (breakdown (calculateStandardsScore d c)) =
           [(''device_coverage'', 90), (''immy_compliance'', 80), (''patch_compliance'', 84),
            (''edr_health'', 90), (''m365_secure_score'', 72)]
         \<and> res_score (calculateStandardsScore d c) = Some 83"
proof -
  define f where "f = length (filter (\<lambda>r. control_client_id r = c \<and> control_status r = ''fail'') (controls d))"
  define u where "u = length (filter (\<lambda>r. control_client_id r = c \<and> control_status r = ''unknown'') (controls d))"
  have fu: "f + u = 10" using assms(5) by (simp add: f_def u_def)
  have t: "device_countByClientId d c = 50" and m: "device_countManagedByClientId d c = 45"
    and h: "array_length (device_findByHealthStatus d c ''healthy'') = 42"
    and p: "control_countByStatus d c ''pass'' = 40"
    using assms(1-4)
    by (simp_all add: device_countByClientId_def device_countManagedByClientId_def array_length_def
          device_findByHealthStatus_def control_countByStatus_def parseInt_count_exact
          rnd_of_nat_exact[of 42, simplified])
  have cf: "control_countByStatus d c ''fail'' = of_nat f" and cu: "control_countByStatus d c ''unknown'' = of_nat u"
    using fu by (simp_all add: control_countByStatus_def f_def[symmetric] u_def[symmetric] parseInt_count_exact)
  have "js_add 40 (of_nat f) = rnd (of_nat (40 + f))" by (simp add: js_add_def)
  also have "\<dots> = of_nat (40 + f)" using fu by (intro rnd_of_nat_exact) simp
  finally have s1: "js_add 40 (of_nat f) = of_nat (40 + f)" .
  have "js_add (of_nat (40 + f)) (of_nat u) = rnd (of_nat (40 + f + u))" by (simp add: js_add_def)
  also have "\<dots> = of_nat (40 + f + u)" using fu by (intro rnd_of_nat_exact) simp
  also have "\<dots> = 50" using fu by simp
  finally have tc: "js_add (js_add (control_countByStatus d c ''pass'') (control_countByStatus d c ''fail''))
      (control_countByStatus d c ''unknown'') = 50"
    by (simp add: p cf cu s1)
  have dc: "score (calculateDeviceCoverage c 50 45) = 90"
    by (simp add: calculateDeviceCoverage_def Let_def scenario_arithmetic)
  have im: "score (calculateImmyCompliance d c) = 80"
    by (simp add: calculateImmyCompliance_def tc[unfolded p] p Let_def scenario_arithmetic)
  have pa: "score (calculatePatchCompliance d c) = 84"
    by (simp add: calculatePatchCompliance_def t h Let_def scenario_arithmetic)
  have ed: "score (calculateEDRHealth d c) = 90"
    by (simp add: calculateEDRHealth_def t m Let_def scenario_arithmetic)
  have ms: "score (calculateM365SecureScore d c) = 72"
    by (simp add: calculateM365SecureScore_def assms(6) Let_def scenario_arithmetic)
  show ?thesis
    by (simp add: calculateStandardsScore_def t m Let_def weighted_total_def dc im pa ed ms
          scenario_arithmetic(9))
qed

theorem C8_standards_scenario_witness:
  "map (\<lambda>(name, comp, weight). (name, score comp)) (breakdown (calculateStandardsScore scenario_db 1)) =
           [(''device_coverage'', 90), (''immy_compliance'', 80), (''patch_compliance'', 84),
            (''edr_health'', 90), (''m365_secure_score'', 72)]
   \<and> res_score (calculateStandardsScore scenario_db 1) = Some 83"
  by (rule C8_standards_scenario) (rule scenario_counts)+

section \<open>The Immy adapter's health mapping\<close>

text \<open>
  C5. The claim: a device whose health telemetry is absent or not recognized by the
  adapter's mapping is normalized to health status unknown, never to healthy. The code:
  a computer whose status is the string offline, which none of the mapping's keywords
  occurs in, is normalized to healthy. A missing status does give unknown, and the
  compliance mapping of the same adapter gives unknown for the same string.
\<close>

theorem C5_unrecognized_status_becomes_healthy:
  "nd_health_status (normalizeDevice offline_computer) = ''healthy''
   \<and> mapImmyHealthStatus (Some ''offline'') = ''healthy''
   \<and> mapImmyHealthStatus None = ''unknown''
   \<and> mapComplianceStatus (Text ''offline'') = ''unknown''"
  by code_simp

section \<open>Credentials are validated before any request\<close>

lemma validateCredentials_missing:
  "f \<in> set req \<Longrightarrow> \<not> truthy (field obj f) \<Longrightarrow>
   validateCredentials (Object obj) req =
     Inl (AdapterError ''Missing required credentials''
            (''Missing fields: '' @ join '', '' (filter (\<lambda>f. \<not> truthy (field obj f)) req)) 400)"
  by (auto simp: validateCredentials_def Let_def filter_empty_conv)

text \<open>
  C6, as stated, fails: the M365 adapter that the sync route reaches accepts
  credentials with none of the fields \<open>tenantId\<close>, \<open>clientId\<close>, \<open>clientSecret\<close> (which
  \<open>validateCredentials\<close> would reject with status 400) and returns the empty batch.
\<close>

theorem C6_counterexample_m365_sync_accepts_missing_credentials:
  "validateCredentials (Object []) [''tenantId'', ''clientId'', ''clientSecret'']
     = Inl (AdapterError ''Missing required credentials''
              ''Missing fields: tenantId, clientId, clientSecret'' 400)
   \<and> M365AdapterSimplified_sync (Object []) = (Inr \<lparr>n_devices = [], n_controls = []\<rparr>, [])"
  by code_simp

text \<open>
  C6, amended. For the ConnectWise adapter and the Immy adapter, credentials that are
  not an object, or an object in which one of the adapter's required fields
  (ConnectWise: \<open>companyId\<close>, \<open>publicKey\<close>, \<open>privateKey\<close>, \<open>clientId\<close>, \<open>baseUrl\<close>; Immy:
  \<open>apiKey\<close>, \<open>baseUrl\<close>) is missing or falsy, make \<open>sync\<close> fail with an \<open>AdapterError\<close> of
  status 400 and no request is sent; with all required fields present requests are
  sent. The M365 adapter that the sync route reaches validates nothing and sends
  nothing: it returns the empty batch for every credentials value.
\<close>

theorem C6_sync_validates_before_any_request:
  "(creds = Object obj \<and>
      (\<exists>f \<in> set [''companyId'', ''publicKey'', ''privateKey'', ''clientId'', ''baseUrl'']. \<not> truthy (field obj f)) \<longrightarrow>
      ConnectWiseAdapter_sync normalizer creds cw =
        (Inl (AdapterError ''Missing required credentials''
               (''Missing fields: '' @
                  join '', '' (filter (\<lambda>f. \<not> truthy (field obj f))
                     [''companyId'', ''publicKey'', ''privateKey'', ''clientId'', ''baseUrl''])) 400), []))
   \<and> (creds = NotAnObject v \<longrightarrow>
      ConnectWiseAdapter_sync normalizer creds cw =
        (Inl (AdapterError ''Invalid credentials'' ''Credentials must be an object'' 400), []))
   \<and> (creds = Object obj \<and>
      (\<forall>f \<in> set [''companyId'', ''publicKey'', ''privateKey'', ''clientId'', ''baseUrl'']. truthy (field obj f)) \<longrightarrow>
      snd (ConnectWiseAdapter_sync normalizer creds cw) =
        [''/company/companies'', ''/finance/agreements'', ''/service/tickets'', ''/company/configurations''])
   \<and> (creds = Object obj \<and> (\<not> truthy (field obj ''apiKey'') \<or> \<not> truthy (field obj ''baseUrl'')) \<longrightarrow>
      ImmyAdapter_sync creds api =
        (Inl (AdapterError ''Missing required credentials''
               (''Missing fields: '' @
                  join '', '' (filter (\<lambda>f. \<not> truthy (field obj f)) [''apiKey'', ''baseUrl''])) 400), []))
   \<and> (creds = NotAnObject v \<longrightarrow>
      ImmyAdapter_sync creds api =
        (Inl (AdapterError ''Invalid credentials'' ''Credentials must be an object'' 400), []))
   \<and> (creds = Object obj \<and> truthy (field obj ''apiKey'') \<and> truthy (field obj ''baseUrl'') \<longrightarrow>
      snd (ImmyAdapter_sync creds api) \<noteq> [])
   \<and> M365AdapterSimplified_sync creds = (Inr \<lparr>n_devices = [], n_controls = []\<rparr>, [])"
proof (intro conjI impI)
  assume h: "creds = Object obj \<and>
      (\<exists>f \<in> set [''companyId'', ''publicKey'', ''privateKey'', ''clientId'', ''baseUrl'']. \<not> truthy (field obj f))"
  then obtain f where "f \<in> set [''companyId'', ''publicKey'', ''privateKey'', ''clientId'', ''baseUrl'']"
    "\<not> truthy (field obj f)" by blast
  from validateCredentials_missing[OF this] h
  show "ConnectWiseAdapter_sync normalizer creds cw =
        (Inl (AdapterError ''Missing required credentials''
               (''Missing fields: '' @
                  join '', '' (filter (\<lambda>f. \<not> truthy (field obj f))
                     [''companyId'', ''publicKey'', ''privateKey'', ''clientId'', ''baseUrl''])) 400), [])"
    by (simp add: ConnectWiseAdapter_sync_def)
next
  assume "creds = NotAnObject v"
  then show "ConnectWiseAdapter_sync normalizer creds cw =
        (Inl (AdapterError ''Invalid credentials'' ''Credentials must be an object'' 400), [])"
    by (simp add: ConnectWiseAdapter_sync_def validateCredentials_def)
next
  assume "creds = Object obj \<and>
      (\<forall>f \<in> set [''companyId'', ''publicKey'', ''privateKey'', ''clientId'', ''baseUrl'']. truthy (field obj f))"
  then have "validateCredentials creds [''companyId'', ''publicKey'', ''privateKey'', ''clientId'', ''baseUrl''] = Inr ()"
    by (simp add: validateCredentials_def)
  then show "snd (ConnectWiseAdapter_sync normalizer creds cw) =
        [''/company/companies'', ''/finance/agreements'', ''/service/tickets'', ''/company/configurations'']"
    by (auto simp: ConnectWiseAdapter_sync_def fetchCompanies_def fetchAgreements_def fetchTickets_def
          fetchConfigurations_def cw_get_def Let_def split: sum.splits prod.splits)
next
  assume h: "creds = Object obj \<and> (\<not> truthy (field obj ''apiKey'') \<or> \<not> truthy (field obj ''baseUrl''))"
  then have "\<exists>f \<in> set [''apiKey'', ''baseUrl'']. \<not> truthy (field obj f)" by auto
  then obtain f where "f \<in> set [''apiKey'', ''baseUrl'']" "\<not> truthy (field obj f)" by blast
  from validateCredentials_missing[OF this] h
  show "ImmyAdapter_sync creds api =
        (Inl (AdapterError ''Missing required credentials''
               (''Missing fields: '' @
                  join '', '' (filter (\<lambda>f. \<not> truthy (field obj f)) [''apiKey'', ''baseUrl''])) 400), [])"
    by (simp add: ImmyAdapter_sync_def)
next
  assume "creds = NotAnObject v"
  then show "ImmyAdapter_sync creds api =
        (Inl (AdapterError ''Invalid credentials'' ''Credentials must be an object'' 400), [])"
    by (simp add: ImmyAdapter_sync_def validateCredentials_def)
next
  assume "creds = Object obj \<and> truthy (field obj ''apiKey'') \<and> truthy (field obj ''baseUrl'')"
  then have "validateCredentials creds [''apiKey'', ''baseUrl''] = Inr ()"
    by (simp add: validateCredentials_def)
  then show "snd (ImmyAdapter_sync creds api) \<noteq> []"
    by (auto simp: ImmyAdapter_sync_def fetchComputers_def fetchBaselines_def fetchComplianceReports_def
             split: sum.splits prod.splits)
next
  show "M365AdapterSimplified_sync creds = (Inr \<lparr>n_devices = [], n_controls = []\<rparr>, [])"
    by (simp add: M365AdapterSimplified_sync_def)
qed

lemma connectwise_fields:
  "\<exists>f \<in> set [''companyId'', ''publicKey'', ''privateKey'', ''clientId'', ''baseUrl''].
      \<not> truthy (field (tl full_connectwise_credentials) f)"
  "\<forall>f \<in> set [''companyId'', ''publicKey'', ''privateKey'', ''clientId'', ''baseUrl''].
      truthy (field full_connectwise_credentials f)"
  "filter (\<lambda>f. \<not> truthy (field (tl full_connectwise_credentials) f))
      [''companyId'', ''publicKey'', ''privateKey'', ''clientId'', ''baseUrl''] = [''companyId'']"
  by code_simp+

lemma immy_fields:
  "\<not> truthy (field [(''apiKey'', Str ''k'')] ''baseUrl'')"
  "filter (\<lambda>f. \<not> truthy (field [(''apiKey'', Str ''k'')] f)) [''apiKey'', ''baseUrl''] = [''baseUrl'']"
  "truthy (field [(''apiKey'', Str ''k''), (''baseUrl'', Str ''https://immy'')] ''apiKey'')"
  "truthy (field [(''apiKey'', Str ''k''), (''baseUrl'', Str ''https://immy'')] ''baseUrl'')"
  by code_simp+

theorem C6_sync_validates_before_any_request_witness:
  "ConnectWiseAdapter_sync count_records (Object (tl full_connectwise_credentials)) quiet_connectwise =
      (Inl (AdapterError ''Missing required credentials'' ''Missing fields: companyId'' 400), [])
   \<and> ConnectWiseAdapter_sync count_records (NotAnObject (Str ''k'')) quiet_connectwise =
      (Inl (AdapterError ''Invalid credentials'' ''Credentials must be an object'' 400), [])
   \<and> snd (ConnectWiseAdapter_sync count_records (Object full_connectwise_credentials) quiet_connectwise) =
        [''/company/companies'', ''/finance/agreements'', ''/service/tickets'', ''/company/configurations'']
   \<and> ImmyAdapter_sync (Object [(''apiKey'', Str ''k'')]) quiet_api =
      (Inl (AdapterError ''Missing required credentials'' ''Missing fields: baseUrl'' 400), [])
   \<and> ImmyAdapter_sync (NotAnObject (Str ''k'')) quiet_api =
      (Inl (AdapterError ''Invalid credentials'' ''Credentials must be an object'' 400), [])
   \<and> snd (ImmyAdapter_sync (Object [(''apiKey'', Str ''k''), (''baseUrl'', Str ''https://immy'')]) quiet_api) \<noteq> []"
proof (intro conjI)
  note t = C6_sync_validates_before_any_request
  have "ConnectWiseAdapter_sync count_records (Object (tl full_connectwise_credentials)) quiet_connectwise =
        (Inl (AdapterError ''Missing required credentials''
               (''Missing fields: '' @
                  join '', '' (filter (\<lambda>f. \<not> truthy (field (tl full_connectwise_credentials) f))
                     [''companyId'', ''publicKey'', ''privateKey'', ''clientId'', ''baseUrl''])) 400), [])"
    using t[of "Object (tl full_connectwise_credentials)" "tl full_connectwise_credentials"
            count_records quiet_connectwise] connectwise_fields(1)
    by blast
  then show "ConnectWiseAdapter_sync count_records (Object (tl full_connectwise_credentials)) quiet_connectwise =
      (Inl (AdapterError ''Missing required credentials'' ''Missing fields: companyId'' 400), [])"
    by (simp only: connectwise_fields(3), simp)
  show "ConnectWiseAdapter_sync count_records (NotAnObject (Str ''k'')) quiet_connectwise =
      (Inl (AdapterError ''Invalid credentials'' ''Credentials must be an object'' 400), [])"
    using t[of "NotAnObject (Str ''k'')" _ count_records quiet_connectwise "Str ''k''"] by blast
  show "snd (ConnectWiseAdapter_sync count_records (Object full_connectwise_credentials) quiet_connectwise) =
        [''/company/companies'', ''/finance/agreements'', ''/service/tickets'', ''/company/configurations'']"
    using t[of "Object full_connectwise_credentials" full_connectwise_credentials
            count_records quiet_connectwise] connectwise_fields(2)
    by blast
  have "ImmyAdapter_sync (Object [(''apiKey'', Str ''k'')]) quiet_api =
        (Inl (AdapterError ''Missing required credentials''
               (''Missing fields: '' @
                  join '', '' (filter (\<lambda>f. \<not> truthy (field [(''apiKey'', Str ''k'')] f))
                     [''apiKey'', ''baseUrl''])) 400), [])"
    using t[of "Object [(''apiKey'', Str ''k'')]" "[(''apiKey'', Str ''k'')]" _ _ _ quiet_api] immy_fields(1)
    by blast
  then show "ImmyAdapter_sync (Object [(''apiKey'', Str ''k'')]) quiet_api =
      (Inl (AdapterError ''Missing required credentials'' ''Missing fields: baseUrl'' 400), [])"
    by (simp only: immy_fields(2), simp)
  show "ImmyAdapter_sync (NotAnObject (Str ''k'')) quiet_api =
      (Inl (AdapterError ''Invalid credentials'' ''Credentials must be an object'' 400), [])"
    using t[of "NotAnObject (Str ''k'')" _ _ _ "Str ''k''" quiet_api] by blast
  show "snd (ImmyAdapter_sync (Object [(''apiKey'', Str ''k''), (''baseUrl'', Str ''https://immy'')]) quiet_api) \<noteq> []"
    using t[of "Object [(''apiKey'', Str ''k''), (''baseUrl'', Str ''https://immy'')]"
            "[(''apiKey'', Str ''k''), (''baseUrl'', Str ''https://immy'')]" _ _ _ quiet_api] immy_fields(3,4)
    by blast
qed

section \<open>Citation validation\<close>






section \<open>What the caller of generateNarrative sees\<close>

text \<open>
  C10. When the citation check throws the hallucination error, \<open>generateNarrative\<close>
  throws an \<open>OpenAIError\<close> with message \<open>Failed to generate narrative\<close> (the original
  message becomes its details). No input makes it throw the hallucination error, and
  every error it throws is that \<open>OpenAIError\<close>.
\<close>

theorem C10_hallucination_is_rethrown_as_OpenAIError:
  "(fst (validateCitations recs input) = Some (HallucinationDetectedError m) \<longrightarrow>
      generateNarrative (Inr tr) (Inr es) (Inr recs) (Inr dp) input
        = Inl (OpenAIError ''Failed to generate narrative'' m))
   \<and> generateNarrative a b c d input \<noteq> Inl (HallucinationDetectedError m')
   \<and> (\<forall>e. generateNarrative a b c d input = Inl e \<longrightarrow>
         (\<exists>details. e = OpenAIError ''Failed to generate narrative'' details))"
  by (auto simp: generateNarrative_def Let_def split: sum.splits option.splits)

theorem C10_hallucination_is_rethrown_as_OpenAIError_witness:
  "generateNarrative (Inr ''trends'') (Inr ''summary'') (Inr [unfounded]) (Inr []) example_input
     = Inl (OpenAIError ''Failed to generate narrative'' (no_evidence_message unfounded))"
  using C10_hallucination_is_rethrown_as_OpenAIError[of "[unfounded]"
      example_input "no_evidence_message unfounded" "''trends''" "''summary''" "[]"]
  by (simp add: unfounded_def)

end
